theory Spec2Isabelle
  imports Complex_Main
begin

section \<open>Scene-graph data\<close>

text \<open>
  The viewer of \<^verbatim>\<open>src/components/ThreeViewer.tsx\<close> works on three.js scene graphs.
  Every material and texture of three.js carries a \<^verbatim>\<open>uuid\<close> drawn at construction.
  An identity is either one the parser of the file brought along, or one of an object
  that \<^verbatim>\<open>processResult\<close> constructs itself (the n-th \<^verbatim>\<open>new\<close> of that call); the two
  kinds never coincide.  \<^verbatim>\<open>Undefined\<close> is what reading \<^verbatim>\<open>.uuid\<close> of a value that is
  no texture gives.  JavaScript numbers are idealised: material
  parameters and counts of thirds as rationals, coordinates and angles as reals.
\<close>

datatype uuid = Parsed nat | Created nat | Undefined

datatype material_type =
    MeshStandardMaterial (roughness: rat) (metalness: rat)
  | PointsMaterial (size: rat) (vertexColors: bool) (sizeAttenuation: bool)
  | OtherMaterial

record material =
  uuid :: uuid
  mtype :: material_type
  color :: "nat option"
  map_tex :: "uuid option"
  normalMap :: "uuid option"
  roughnessMap :: "uuid option"
  metalnessMap :: "uuid option"
  emissiveMap :: "uuid option"

text \<open>
  \<^verbatim>\<open>mesh.material\<close> is absent, one material, or an array of materials.
\<close>

datatype material_slot = NoMaterial | Single material | Multi "material list"

text \<open>
  Of a \<^verbatim>\<open>BufferGeometry\<close> the code reads \<^verbatim>\<open>attributes.position.count\<close>,
  \<^verbatim>\<open>index.count\<close> and \<^verbatim>\<open>hasAttribute('color')\<close>.
\<close>

record buffer_geometry =
  position_count :: "nat option"
  index_count :: "nat option"
  hasColor :: bool

datatype node_type = Group | Mesh | SkinnedMesh | Points

record node =
  ntype :: node_type
  geometry :: buffer_geometry
  material :: material_slot
  frustumCulled :: bool

datatype object3d = Object3D node "object3d list"

record clip =
  clip_uuid :: nat
  clip_name :: string

definition isMesh :: "node \<Rightarrow> bool" where
  "isMesh n = (ntype n = Mesh \<or> ntype n = SkinnedMesh)"

definition isSkinnedMesh :: "node \<Rightarrow> bool" where
  "isSkinnedMesh n = (ntype n = SkinnedMesh)"

definition isPoints :: "node \<Rightarrow> bool" where
  "isPoints n = (ntype n = Points)"

section \<open>Export\<close>

text \<open>
  \<^verbatim>\<open>ExportConfig\<close> of \<^verbatim>\<open>src/types.ts\<close>; its \<^verbatim>\<open>format\<close> has the single value
  \<^verbatim>\<open>'glb'\<close>.
\<close>

record ExportConfig =
  draco :: bool
  ktx2 :: bool
  fileName :: string

text \<open>
  The options object handed to \<^verbatim>\<open>GLTFExporter.parse\<close> (lines 160 to 168).
  \<^verbatim>\<open>dracoOptions\<close> holds the compression level when it is set.
\<close>

record export_options =
  binary :: bool
  animations :: "clip list"
  truncateDrawRange :: bool
  dracoOptions :: "nat option"

definition exportOptions :: "clip list \<Rightarrow> ExportConfig \<Rightarrow> export_options" where
  "exportOptions clips config =
     \<lparr>binary = True, animations = clips, truncateDrawRange = True,
      dracoOptions = (if draco config then Some 7 else None)\<rparr>"

text \<open>
  \<^verbatim>\<open>config.fileName.replace(/\.[^/.]+$/, "")\<close>: the regular expression matches a dot
  followed by one or more characters other than \<^verbatim>\<open>/\<close> and \<^verbatim>\<open>.\<close> up to the end of the
  string.  \<^verbatim>\<open>match_ext\<close> says whether the whole of a string is such a match, and
  \<^verbatim>\<open>strip_ext\<close> removes the leftmost match, as \<^verbatim>\<open>replace\<close> does.
\<close>

definition match_ext :: "string \<Rightarrow> bool" where
  "match_ext s =
     (case s of
        [] \<Rightarrow> False
      | c # r \<Rightarrow> c = CHR ''.'' \<and> r \<noteq> [] \<and> list_all (\<lambda>x. x \<noteq> CHR ''/'' \<and> x \<noteq> CHR ''.'') r)"

fun strip_ext :: "string \<Rightarrow> string" where
  "strip_ext [] = []"
| "strip_ext (c # r) = (if match_ext (c # r) then [] else c # strip_ext r)"

definition suffix_of :: "ExportConfig \<Rightarrow> string" where
  "suffix_of config =
     (let s1 = (if draco config then ''_draco'' else '''');
          s2 = (if ktx2 config then s1 @ ''_ktx2'' else s1)
      in if s2 = [] then ''_optimized'' else s2)"

definition download_name :: "ExportConfig \<Rightarrow> string" where
  "download_name config = strip_ext (fileName config) @ suffix_of config @ ''.glb''"

text \<open>
  The export path clones the displayed model and moves the clone, so which objects the
  clone shares with the displayed model matters.  Here the scene graph lives in a store:
  an object is a cell at an address, it names its children and its parent by address,
  and \<^verbatim>\<open>new\<close> appends a cell.
\<close>

type_synonym addr = nat

type_synonym vec3 = "real \<times> real \<times> real"

record cell =
  obj :: node
  position :: vec3
  children :: "addr list"
  parent :: "addr option"

type_synonym store = "cell list"

definition vec_sub :: "vec3 \<Rightarrow> vec3 \<Rightarrow> vec3" where
  "vec_sub a b = (case a of (ax, ay, az) \<Rightarrow> case b of (bx, by', bz) \<Rightarrow> (ax - bx, ay - by', az - bz))"

text \<open>
  \<^verbatim>\<open>Object3D.add\<close> of three.js for a child without a parent: the child's \<^verbatim>\<open>parent\<close>
  is set and the child is pushed onto the parent's \<^verbatim>\<open>children\<close>.
\<close>

definition add_child :: "store \<Rightarrow> addr \<Rightarrow> addr \<Rightarrow> store" where
  "add_child h p c =
     (let h1 = h[c := (h ! c)\<lparr>parent := Some p\<rparr>]
      in h1[p := (h1 ! p)\<lparr>children := children (h1 ! p) @ [c]\<rparr>])"

text \<open>
  \<^verbatim>\<open>Object3D.clone()\<close> of three.js: a new object of the same class receives copies of
  the transform; geometry and materials are shared with the source (the \<^verbatim>\<open>obj\<close> of
  the cell are copied as they are, identities included); every child is cloned in turn
  and added to the new object.  The recursion follows the children of cells in the store,
  so it carries fuel; \<^verbatim>\<open>None\<close> means that the fuel ran out or an address dangles.
\<close>

fun clone :: "nat \<Rightarrow> store \<Rightarrow> addr \<Rightarrow> (addr \<times> store) option" where
  "clone 0 h a = None"
| "clone (Suc n) h a =
     (if a < length h then
        (let new = length h;
             h1 = h @ [(h ! a)\<lparr>children := [], parent := None\<rparr>]
         in map_option (\<lambda>h'. (new, h'))
              (fold (\<lambda>c acc. case acc of
                        None \<Rightarrow> None
                      | Some h' \<Rightarrow> (case clone n h' c of
                                      None \<Rightarrow> None
                                    | Some (c', h'') \<Rightarrow> Some (add_child h'' new c')))
                    (children (h ! a)) (Some h1)))
      else None)"

text \<open>
  The library operations \<^verbatim>\<open>exportModel\<close> calls besides \<^verbatim>\<open>clone\<close> and \<^verbatim>\<open>add\<close>:
  \<^verbatim>\<open>new Box3().setFromObject(o).getCenter(..)\<close> and \<^verbatim>\<open>GLTFExporter.parse\<close>.  Both read
  the scene graph; they are parameters of the model.  The exporter either hands bytes to
  its completion callback or an error to its error callback.
\<close>

datatype error = Error (message: string)

record three =
  boxCenter :: "store \<Rightarrow> addr \<Rightarrow> vec3"
  exporter_parse :: "store \<Rightarrow> addr \<Rightarrow> export_options \<Rightarrow> error + nat list"

datatype export_outcome =
    NoModel
  | Download string "nat list"
  | ExportError error

text \<open>
  \<^verbatim>\<open>exportModel\<close> (lines 148 to 194).  \<^verbatim>\<open>model\<close> is the address of the displayed
  model's root, \<^verbatim>\<open>clips\<close> is \<^verbatim>\<open>clips.current\<close>.  The result is the store afterwards
  with the address of \<^verbatim>\<open>exportScene\<close>, the options handed to the exporter, and what
  happened: a download of the bytes under \<^verbatim>\<open>link.download\<close>, or the error thrown.
\<close>

definition exportModel ::
  "three \<Rightarrow> nat \<Rightarrow> addr option \<Rightarrow> clip list \<Rightarrow> ExportConfig \<Rightarrow> store
     \<Rightarrow> (store \<times> addr option \<times> export_options option \<times> export_outcome) option" where
  "exportModel lib fuel model clips config h =
     (case model of
        None \<Rightarrow> Some (h, None, None, NoModel)
      | Some m \<Rightarrow>
          (let exportScene = length h;
               h1 = h @ [\<lparr>obj = \<lparr>ntype = Group,
                             geometry = \<lparr>position_count = None, index_count = None, hasColor = False\<rparr>,
                             material = NoMaterial, frustumCulled = True\<rparr>,
                           position = (0, 0, 0), children = [], parent = None\<rparr>]
           in case clone fuel h1 m of
                None \<Rightarrow> None
              | Some (cl, h2) \<Rightarrow>
                  (let center = boxCenter lib h2 cl;
                       h3 = h2[cl := (h2 ! cl)\<lparr>position := vec_sub (position (h2 ! cl)) center\<rparr>];
                       h4 = add_child h3 exportScene cl;
                       options = exportOptions clips config
                   in Some (h4, Some exportScene, Some options,
                        (case exporter_parse lib h4 exportScene options of
                           Inr output \<Rightarrow> Download (download_name config) output
                         | Inl e \<Rightarrow> ExportError e)))))"

section \<open>Strings\<close>

text \<open>
  \<^verbatim>\<open>toLowerCase\<close> and \<^verbatim>\<open>toUpperCase\<close> on the ASCII letters; every other character is
  left as it is (the extensions the viewer knows are ASCII).
\<close>

definition upper_letters :: string where
  "upper_letters = ''ABCDEFGHIJKLMNOPQRSTUVWXYZ''"

definition lower_letters :: string where
  "lower_letters = ''abcdefghijklmnopqrstuvwxyz''"

definition toLowerCase :: "string \<Rightarrow> string" where
  "toLowerCase s =
     map (\<lambda>c. case map_of (zip upper_letters lower_letters) c of Some d \<Rightarrow> d | None \<Rightarrow> c) s"

definition toUpperCase :: "string \<Rightarrow> string" where
  "toUpperCase s =
     map (\<lambda>c. case map_of (zip lower_letters upper_letters) c of Some d \<Rightarrow> d | None \<Rightarrow> c) s"

text \<open>The decimal numeral of a number, as a template literal prints it.\<close>

fun string_of_nat :: "nat \<Rightarrow> string" where
  "string_of_nat n =
     (if n < 10 then [''0123456789'' ! n]
      else string_of_nat (n div 10) @ [''0123456789'' ! (n mod 10)])"

section \<open>Normalisation and metadata: processResult\<close>

text \<open>
  What a loader's \<^verbatim>\<open>parse\<close> hands to \<^verbatim>\<open>processResult\<close>: the GLTF loader an object
  with \<^verbatim>\<open>scene\<close> and \<^verbatim>\<open>animations\<close>, the OBJ and PCD loaders an \<^verbatim>\<open>Object3D\<close>, the PLY
  and XYZ loaders a \<^verbatim>\<open>BufferGeometry\<close> (which has no \<^verbatim>\<open>scene\<close> property, so line 234
  leaves \<^verbatim>\<open>geometry\<close> as it is).
\<close>

datatype parse_result =
    GltfResult object3d "clip list"
  | ObjectResult object3d
  | GeometryResult buffer_geometry

text \<open>
  The materials \<^verbatim>\<open>processResult\<close> constructs.  A constructor argument that is left out
  keeps the three.js default (white colour, roughness 1, metalness 0, size attenuation
  on).
\<close>

definition newMeshStandardMaterial ::
  "uuid \<Rightarrow> nat \<Rightarrow> uuid option \<Rightarrow> rat \<Rightarrow> rat \<Rightarrow> material" where
  "newMeshStandardMaterial u c m r me =
     \<lparr>uuid = u, mtype = MeshStandardMaterial r me, color = Some c, map_tex = m,
      normalMap = None, roughnessMap = None, metalnessMap = None, emissiveMap = None\<rparr>"

definition newPointsMaterial :: "uuid \<Rightarrow> rat \<Rightarrow> bool \<Rightarrow> material" where
  "newPointsMaterial u sz vc =
     \<lparr>uuid = u, mtype = PointsMaterial sz vc True, color = Some 0xffffff, map_tex = None,
      normalMap = None, roughnessMap = None, metalnessMap = None, emissiveMap = None\<rparr>"

text \<open>
  A result of a shape that the branch of \<^verbatim>\<open>ext\<close> cannot use makes JavaScript throw a
  \<^verbatim>\<open>TypeError\<close> (a method of \<^verbatim>\<open>undefined\<close> is called).  The loaders never produce
  one, and \<^verbatim>\<open>loadModel\<close> hands each branch the result of its own loader.
\<close>

definition TypeError :: error where
  "TypeError = Error ''TypeError''"

text \<open>
  Lines 214 to 255: the object to display, its animation clips, and the number of
  objects constructed so far.
\<close>

definition normalize ::
  "rat \<Rightarrow> string \<Rightarrow> parse_result \<Rightarrow> error + (object3d \<times> clip list \<times> nat)" where
  "normalize pointSize ext result =
     (if ext = ''glb'' \<or> ext = ''gltf'' then
        (case result of
           GltfResult scene anims \<Rightarrow> Inr (scene, anims, 0)
         | _ \<Rightarrow> Inl TypeError)
      else if ext = ''obj'' then
        (case result of
           ObjectResult object \<Rightarrow> Inr (object, [], 0)
         | _ \<Rightarrow> Inl TypeError)
      else if ext = ''pcd'' then
        (case result of
           ObjectResult (Object3D n cs) \<Rightarrow>
             (case material n of
                NoMaterial \<Rightarrow> Inr (Object3D n cs, [], 0)
              | _ \<Rightarrow>
                  Inr (Object3D
                         (n\<lparr>material :=
                              Single (newPointsMaterial (Created 0) pointSize
                                        (hasColor (geometry n)))\<rparr>) cs,
                       [], 1))
         | _ \<Rightarrow> Inl TypeError)
      else if ext = ''xyz'' \<or> ext = ''ply'' then
        (case result of
           GeometryResult g \<Rightarrow>
             (let isPointCloud =
                    (ext = ''xyz'' \<or>
                     (ext = ''ply'' \<and>
                      (case index_count g of None \<Rightarrow> True | Some c \<Rightarrow> c = 0)))
              in if isPointCloud then
                   Inr (Object3D
                          \<lparr>ntype = Points, geometry = g,
                           material = Single (newPointsMaterial (Created 0) pointSize (hasColor g)),
                           frustumCulled = True\<rparr> [],
                        [], 1)
                 else
                   Inr (Object3D
                          \<lparr>ntype = Mesh, geometry = g,
                           material = Single (newMeshStandardMaterial (Created 0) 0x808080 None
                                                (1 / 2) (1 / 2)),
                           frustumCulled = True\<rparr> [],
                        [], 1))
         | _ \<Rightarrow> Inl TypeError)
      else
        (case result of
           GeometryResult g \<Rightarrow>
             Inr (Object3D
                    \<lparr>ntype = Mesh, geometry = g,
                     material = Single (newMeshStandardMaterial (Created 0) 0xffffff None 1 0),
                     frustumCulled = True\<rparr> [],
                  [], 1)
         | _ \<Rightarrow> Inl TypeError))"

text \<open>
  The accumulators of the traversal (lines 274 to 278) and the count of objects
  constructed so far.  A JavaScript \<^verbatim>\<open>Set\<close> keeps its members in insertion order; it is
  a list without repetitions here, and \<^verbatim>\<open>size\<close> is its length.  \<^verbatim>\<open>triangles\<close> is a
  JavaScript number that takes thirds; it is a rational here.
\<close>

record stats =
  vertices :: nat
  triangles :: rat
  meshes :: nat
  materialsCount :: "uuid list"
  texturesCount :: "uuid list"
  created :: nat

text \<open>Lines 312 to 318: one material's identity and those of its textures.\<close>

definition count_texture :: "uuid option \<Rightarrow> stats \<Rightarrow> stats" where
  "count_texture slot s =
     (case slot of
        None \<Rightarrow> s
      | Some t \<Rightarrow> s\<lparr>texturesCount := List.insert t (texturesCount s)\<rparr>)"

definition count_material :: "material \<Rightarrow> stats \<Rightarrow> stats" where
  "count_material m st =
     fold count_texture
       [map_tex m, normalMap m, roughnessMap m, metalnessMap m, emissiveMap m]
       (st\<lparr>materialsCount := List.insert (uuid m) (materialsCount st)\<rparr>)"

text \<open>
  Lines 296 to 307: the material that replaces the one of a mesh of a format other than
  glb and gltf.  On one material, \<^verbatim>\<open>oldMat.color || 0xcccccc\<close> and \<^verbatim>\<open>oldMat.map || null\<close>
  read its colour and its texture.  On an array of materials \<^verbatim>\<open>oldMat.color\<close> is
  undefined, and \<^verbatim>\<open>oldMat.map\<close> is the array's own \<^verbatim>\<open>map\<close> method, a function, whose
  \<^verbatim>\<open>uuid\<close> the texture count then reads as \<^verbatim>\<open>undefined\<close>.
\<close>

definition replacement :: "nat \<Rightarrow> material_slot \<Rightarrow> material" where
  "replacement k old =
     (case old of
        Single m \<Rightarrow>
          newMeshStandardMaterial (Created k)
            (case color m of Some c \<Rightarrow> c | None \<Rightarrow> 0xcccccc) (map_tex m) (3 / 5) (1 / 5)
      | _ \<Rightarrow> newMeshStandardMaterial (Created k) 0xcccccc (Some Undefined) (3 / 5) (1 / 5))"

text \<open>
  The callback of \<^verbatim>\<open>object.traverse\<close> (lines 280 to 321) on one node: the node as
  the callback leaves it, and the accumulators.
\<close>

definition visit :: "string \<Rightarrow> node \<Rightarrow> stats \<Rightarrow> node \<times> stats" where
  "visit ext child st =
     (if isMesh child \<or> isPoints child then
        (let st1 = st\<lparr>meshes := meshes st + 1\<rparr>;
             geom = geometry child;
             child1 = (if isSkinnedMesh child then child\<lparr>frustumCulled := False\<rparr> else child);
             st2 = (case position_count geom of
                      None \<Rightarrow> st1
                    | Some c \<Rightarrow>
                        (let st' = st1\<lparr>vertices := vertices st1 + c\<rparr>
                         in if isMesh child
                            then st'\<lparr>triangles := triangles st' + of_nat c / 3\<rparr>
                            else st'));
             (child2, st3) =
               (if ext \<noteq> ''glb'' \<and> ext \<noteq> ''gltf'' \<and> isMesh child then
                  (case material child1 of
                     NoMaterial \<Rightarrow> (child1, st2)
                   | oldMat \<Rightarrow>
                       (child1\<lparr>material := Single (replacement (created st2) oldMat)\<rparr>,
                        st2\<lparr>created := created st2 + 1\<rparr>))
                else (child1, st2));
             st4 = (case material child2 of
                      NoMaterial \<Rightarrow> st3
                    | Single m \<Rightarrow> count_material m st3
                    | Multi mats \<Rightarrow> fold count_material mats st3)
         in (child2, st4))
      else (child, st))"

text \<open>
  \<^verbatim>\<open>Object3D.traverse\<close> of three.js calls the callback on the object and then
  traverses each child in order.
\<close>

fun traverse :: "string \<Rightarrow> object3d \<Rightarrow> stats \<Rightarrow> object3d \<times> stats"
  and traverse_children :: "string \<Rightarrow> object3d list \<Rightarrow> stats \<Rightarrow> object3d list \<times> stats" where
  "traverse ext (Object3D n cs) st =
     (case visit ext n st of
        (n', st1) \<Rightarrow>
          (case traverse_children ext cs st1 of
             (cs', st2) \<Rightarrow> (Object3D n' cs', st2)))"
| "traverse_children ext [] st = ([], st)"
| "traverse_children ext (c # cs) st =
     (case traverse ext c st of
        (c', st1) \<Rightarrow>
          (case traverse_children ext cs st1 of
             (cs', st2) \<Rightarrow> (c' # cs', st2)))"

text \<open>The fields of \<^verbatim>\<open>ModelMetadata\<close> that \<^verbatim>\<open>processResult\<close> reports (lines 324 to 331).\<close>

record metadata =
  md_vertices :: nat
  md_triangles :: int
  md_meshes :: nat
  md_materials :: nat
  md_textures :: nat
  md_animations :: "string list"

text \<open>
  \<^verbatim>\<open>modelAnimations.indexOf(c)\<close> compares by identity, which is the clip's uuid here.
\<close>

fun indexOf :: "clip list \<Rightarrow> clip \<Rightarrow> nat" where
  "indexOf [] c = 0"
| "indexOf (d # ds) c = (if clip_uuid d = clip_uuid c then 0 else Suc (indexOf ds c))"

definition animation_name :: "clip list \<Rightarrow> clip \<Rightarrow> string" where
  "animation_name modelAnimations c =
     (if clip_name c \<noteq> [] then clip_name c
      else ''Animation '' @ string_of_nat (indexOf modelAnimations c + 1))"

definition metadata_of :: "stats \<Rightarrow> clip list \<Rightarrow> metadata" where
  "metadata_of st modelAnimations =
     \<lparr>md_vertices = vertices st,
      md_triangles = round (triangles st),
      md_meshes = meshes st,
      md_materials = length (materialsCount st),
      md_textures = length (texturesCount st),
      md_animations = map (animation_name modelAnimations) modelAnimations\<rparr>"

section \<open>The viewer's state and what it emits\<close>

text \<open>
  What leaves the component, in order: status strings through \<^verbatim>\<open>onLoadingStatus\<close>,
  the metadata callback, requests for a byte buffer, calls of a parser, calls on the
  animation mixer and its actions (an action is named by its clip: \<^verbatim>\<open>clipAction\<close> hands
  out one action per clip), and the deferred \<^verbatim>\<open>frameCamera\<close>.  The optional
  \<^verbatim>\<open>onLoadingStatus\<close> is taken to be given.
\<close>

datatype event =
    LoadingStatus string
  | FetchBuffer string
  | ParserCall string
  | ModelMetadata metadata
  | StopAllAction
  | Play clip
  | Reset clip
  | FadeIn clip rat
  | FadeOut clip rat
  | FrameCameraLater

text \<open>
  The state of \<^verbatim>\<open>ModelManager\<close>: the \<^verbatim>\<open>model\<close> state variable, whether
  \<^verbatim>\<open>mixer.current\<close> holds a mixer, \<^verbatim>\<open>clips.current\<close>, the clip of
  \<^verbatim>\<open>activeAction.current\<close>, and the events emitted so far.
\<close>

record viewer =
  model :: "object3d option"
  mixer :: bool
  clips :: "clip list"
  activeAction :: "clip option"
  emitted :: "event list"

definition emit :: "event \<Rightarrow> viewer \<Rightarrow> viewer" where
  "emit e v = v\<lparr>emitted := emitted v @ [e]\<rparr>"

text \<open>
  The component's state at mount: \<^verbatim>\<open>useState(null)\<close> and the initial values of the
  refs.
\<close>

definition initial_viewer :: viewer where
  "initial_viewer =
     \<lparr>model = None, mixer = False, clips = [], activeAction = None, emitted = []\<rparr>"

definition initial_stats :: "nat \<Rightarrow> stats" where
  "initial_stats k =
     \<lparr>vertices = 0, triangles = 0, meshes = 0, materialsCount = [], texturesCount = [],
      created = k\<rparr>"

text \<open>
  \<^verbatim>\<open>processResult\<close> (lines 213 to 334).  An error is what JavaScript throws.
\<close>

definition processResult :: "rat \<Rightarrow> string \<Rightarrow> parse_result \<Rightarrow> viewer \<Rightarrow> error + viewer" where
  "processResult pointSize ext result v =
     (case normalize pointSize ext result of
        Inl e \<Rightarrow> Inl e
      | Inr (object, modelAnimations, k) \<Rightarrow>
          (let v1 = (if mixer v then (emit StopAllAction v)\<lparr>mixer := False\<rparr> else v);
               v2 = v1\<lparr>activeAction := None, clips := modelAnimations\<rparr>;
               v3 = (case modelAnimations of
                       [] \<Rightarrow> v2
                     | c # _ \<Rightarrow> (emit (Play c) (v2\<lparr>mixer := True\<rparr>))\<lparr>activeAction := Some c\<rparr>)
           in case traverse ext object (initial_stats k) of
                (object', st) \<Rightarrow>
                  Inr (emit FrameCameraLater
                         (emit (ModelMetadata (metadata_of st modelAnimations))
                            (v3\<lparr>model := Some object'\<rparr>)))))"

text \<open>\<^verbatim>\<open>handleError\<close> (lines 336 to 338).\<close>

definition handleError :: "error \<Rightarrow> viewer \<Rightarrow> viewer" where
  "handleError err v =
     emit (LoadingStatus
             (''Error: '' @ (if message err \<noteq> [] then message err else ''Parsing failed''))) v"

section \<open>Loading: loadModel\<close>

text \<open>
  What \<^verbatim>\<open>loadModel\<close> calls outside the component: \<^verbatim>\<open>fetch\<close> with
  \<^verbatim>\<open>arrayBuffer\<close>, \<^verbatim>\<open>TextDecoder.decode\<close>, and the \<^verbatim>\<open>parse\<close> of each loader.  Each
  either returns or fails with an error.
\<close>

record world =
  fetch :: "string \<Rightarrow> error + nat list"
  decode :: "nat list \<Rightarrow> string"
  gltf_parse :: "nat list \<Rightarrow> error + object3d \<times> clip list"
  obj_parse :: "string \<Rightarrow> error + object3d"
  ply_parse :: "nat list \<Rightarrow> error + buffer_geometry"
  pcd_parse :: "nat list \<Rightarrow> error + object3d"
  xyz_parse :: "string \<Rightarrow> error + buffer_geometry"

text \<open>
  \<^verbatim>\<open>loadModel\<close> (lines 340 to 385) suspends at \<^verbatim>\<open>await fetch\<close> and, for glb and gltf,
  until the GLTF loader calls back.  It is modelled in the three pieces between these
  points.  \<^verbatim>\<open>finish\<close> is the common end of a parse: \<^verbatim>\<open>processResult\<close> on success,
  \<^verbatim>\<open>handleError\<close> on an error of the parser or of \<^verbatim>\<open>processResult\<close>.
\<close>

definition finish :: "rat \<Rightarrow> string \<Rightarrow> error + parse_result \<Rightarrow> viewer \<Rightarrow> viewer" where
  "finish pointSize ext parsed v =
     (case parsed of
        Inl e \<Rightarrow> handleError e v
      | Inr result \<Rightarrow>
          (case processResult pointSize ext result v of
             Inl e \<Rightarrow> handleError e v
           | Inr v' \<Rightarrow> v'))"

definition loadModel_start :: "string \<Rightarrow> viewer \<Rightarrow> viewer" where
  "loadModel_start modelUrl v =
     emit (FetchBuffer modelUrl) (emit (LoadingStatus ''Fetching data stream...'') v)"

text \<open>
  After the fetch: the viewer, and for glb and gltf the buffer whose parse is pending.
\<close>

definition loadModel_fetched ::
  "world \<Rightarrow> rat \<Rightarrow> string \<Rightarrow> string \<Rightarrow> viewer \<Rightarrow> viewer \<times> nat list option" where
  "loadModel_fetched w pointSize modelUrl ext v =
     (case fetch w modelUrl of
        Inl e \<Rightarrow> (handleError e v, None)
      | Inr buffer \<Rightarrow>
          (let v1 = emit (LoadingStatus (''Decoding '' @ toUpperCase ext @ '' payloads...'')) v
           in if ext = ''glb'' \<or> ext = ''gltf'' then
                (emit (ParserCall ext) v1, Some buffer)
              else if ext = ''obj'' then
                (finish pointSize ext (map_sum id ObjectResult (obj_parse w (decode w buffer)))
                   (emit (ParserCall ext) v1), None)
              else if ext = ''ply'' then
                (finish pointSize ext (map_sum id GeometryResult (ply_parse w buffer))
                   (emit (ParserCall ext) v1), None)
              else if ext = ''pcd'' then
                (finish pointSize ext (map_sum id ObjectResult (pcd_parse w buffer))
                   (emit (ParserCall ext) v1), None)
              else if ext = ''xyz'' then
                (finish pointSize ext (map_sum id GeometryResult (xyz_parse w (decode w buffer)))
                   (emit (ParserCall ext) v1), None)
              else
                (handleError (Error (''Unsupported format: '' @ ext)) v1, None)))"

definition loadModel_parsed :: "world \<Rightarrow> rat \<Rightarrow> string \<Rightarrow> nat list \<Rightarrow> viewer \<Rightarrow> viewer" where
  "loadModel_parsed w pointSize ext buffer v =
     finish pointSize ext
       (map_sum id (\<lambda>(scene, anims). GltfResult scene anims) (gltf_parse w buffer)) v"

text \<open>One load run from its start to its end with nothing in between.\<close>

definition loadModel :: "world \<Rightarrow> rat \<Rightarrow> string \<Rightarrow> string \<Rightarrow> viewer \<Rightarrow> viewer" where
  "loadModel w pointSize modelUrl ext v =
     (case loadModel_fetched w pointSize modelUrl ext (loadModel_start modelUrl v) of
        (v1, None) \<Rightarrow> v1
      | (v1, Some buffer) \<Rightarrow> loadModel_parsed w pointSize ext buffer v1)"

text \<open>
  The effect of lines 197 to 395 for given props, run to its end: without a URL or an
  extension (\<^verbatim>\<open>null\<close> or the empty string) the model is cleared and nothing is loaded.
\<close>

definition falsy :: "string option \<Rightarrow> bool" where
  "falsy s = (case s of None \<Rightarrow> True | Some x \<Rightarrow> x = [])"

definition load_effect ::
  "world \<Rightarrow> rat \<Rightarrow> string option \<Rightarrow> string option \<Rightarrow> viewer \<Rightarrow> viewer" where
  "load_effect w pointSize modelUrl extension v =
     (if falsy modelUrl \<or> falsy extension then v\<lparr>model := None\<rparr>
      else loadModel w pointSize (the modelUrl) (toLowerCase (the extension)) v)"

section \<open>Animation switching\<close>

text \<open>
  The effect of lines 78 to 91, which runs when \<^verbatim>\<open>settings.activeAnimationIndex\<close>
  changes.  \<^verbatim>\<open>clips.current[i] || clips.current[0]\<close> is the clip at an index within
  the list and the first clip otherwise.  The calls \<^verbatim>\<open>reset\<close>, \<^verbatim>\<open>fadeIn\<close> and
  \<^verbatim>\<open>play\<close> on the action of the clip are emitted in that order; 0.3 is the rational
  3/10.
\<close>

definition switchAnimation :: "int \<Rightarrow> viewer \<Rightarrow> viewer" where
  "switchAnimation activeAnimationIndex v =
     (if mixer v \<and> clips v \<noteq> [] then
        (let v1 = (case activeAction v of
                     None \<Rightarrow> v
                   | Some a \<Rightarrow> emit (FadeOut a (3 / 10)) v);
             nextClip = (if 0 \<le> activeAnimationIndex
                            \<and> activeAnimationIndex < int (length (clips v))
                         then clips v ! nat activeAnimationIndex
                         else clips v ! 0)
         in (emit (Play nextClip) (emit (FadeIn nextClip (3 / 10)) (emit (Reset nextClip) v1)))
              \<lparr>activeAction := Some nextClip\<rparr>)
      else v)"

section \<open>Loads in flight\<close>

text \<open>
  A load that has been started and where it is suspended: at \<^verbatim>\<open>await fetch\<close>, or, for
  glb and gltf, until the GLTF loader calls back, or not at all any more.  The effect of
  lines 197 to 395 captures \<^verbatim>\<open>modelUrl\<close>, the extension in lower case and the point
  size of its render.
\<close>

datatype phase = AwaitFetch | AwaitParse "nat list" | Finished

record load =
  l_url :: string
  l_ext :: string
  l_pointSize :: rat
  l_phase :: phase

record app =
  viewer :: viewer
  loads :: "load list"

text \<open>
  What can happen next: the props change (the effect's cleanup of lines 389 to 394 runs,
  then the effect), or the continuation of a suspended load runs.  Nothing in the
  component orders the continuations of different loads.
\<close>

datatype act = PropsChange "string option" "string option" rat | Resume nat

definition effect_cleanup :: "viewer \<Rightarrow> viewer" where
  "effect_cleanup v = (if mixer v then emit StopAllAction v else v)"

definition step :: "world \<Rightarrow> act \<Rightarrow> app \<Rightarrow> app" where
  "step w a s =
     (case a of
        PropsChange modelUrl extension pointSize \<Rightarrow>
          (let v = effect_cleanup (viewer s)
           in if falsy modelUrl \<or> falsy extension then s\<lparr>viewer := v\<lparr>model := None\<rparr>\<rparr>
              else s\<lparr>viewer := loadModel_start (the modelUrl) v,
                     loads := loads s @
                       [\<lparr>l_url = the modelUrl, l_ext = toLowerCase (the extension),
                         l_pointSize = pointSize, l_phase = AwaitFetch\<rparr>]\<rparr>)
      | Resume k \<Rightarrow>
          (if k < length (loads s) then
             (let l = loads s ! k
              in case l_phase l of
                   AwaitFetch \<Rightarrow>
                     (case loadModel_fetched w (l_pointSize l) (l_url l) (l_ext l) (viewer s) of
                        (v, None) \<Rightarrow>
                          s\<lparr>viewer := v, loads := (loads s)[k := l\<lparr>l_phase := Finished\<rparr>]\<rparr>
                      | (v, Some buffer) \<Rightarrow>
                          s\<lparr>viewer := v, loads := (loads s)[k := l\<lparr>l_phase := AwaitParse buffer\<rparr>]\<rparr>)
                 | AwaitParse buffer \<Rightarrow>
                     s\<lparr>viewer := loadModel_parsed w (l_pointSize l) (l_ext l) buffer (viewer s),
                       loads := (loads s)[k := l\<lparr>l_phase := Finished\<rparr>]\<rparr>
                 | Finished \<Rightarrow> s)
           else s))"

definition run :: "world \<Rightarrow> act list \<Rightarrow> app \<Rightarrow> app" where
  "run w acts s = fold (step w) acts s"

definition initial_app :: app where
  "initial_app = \<lparr>viewer = initial_viewer, loads = []\<rparr>"

section \<open>Camera framing\<close>

text \<open>
  \<^verbatim>\<open>frameCamera\<close> (lines 45 to 69) on a perspective camera.  Coordinates and angles
  are real numbers.  The bounding box that \<^verbatim>\<open>new Box3().setFromObject(object)\<close> computes
  is given by its corners; \<^verbatim>\<open>getSize\<close> and \<^verbatim>\<open>getCenter\<close> of three.js give the zero
  vector for an empty box.
\<close>

record box3 =
  box_min :: vec3
  box_max :: vec3

record camera =
  camera_position :: vec3
  fov :: real
  aspect :: real
  near :: real
  far :: real

definition isEmpty :: "box3 \<Rightarrow> bool" where
  "isEmpty b =
     (case box_min b of (x0, y0, z0) \<Rightarrow> case box_max b of (x1, y1, z1) \<Rightarrow>
        x1 < x0 \<or> y1 < y0 \<or> z1 < z0)"

definition getSize :: "box3 \<Rightarrow> vec3" where
  "getSize b =
     (if isEmpty b then (0, 0, 0)
      else case box_min b of (x0, y0, z0) \<Rightarrow> case box_max b of (x1, y1, z1) \<Rightarrow>
        (x1 - x0, y1 - y0, z1 - z0))"

definition getCenter :: "box3 \<Rightarrow> vec3" where
  "getCenter b =
     (if isEmpty b then (0, 0, 0)
      else case box_min b of (x0, y0, z0) \<Rightarrow> case box_max b of (x1, y1, z1) \<Rightarrow>
        ((x0 + x1) / 2, (y0 + y1) / 2, (z0 + z1) / 2))"

text \<open>Lines 50 to 54.  \<^verbatim>\<open>camera.fov || 45\<close> and \<^verbatim>\<open>camera.aspect || 1\<close> replace a zero.\<close>

definition fitHeightDistance :: "box3 \<Rightarrow> camera \<Rightarrow> real" where
  "fitHeightDistance b cam =
     (let maxSize = (case getSize b of (sx, sy, sz) \<Rightarrow> max (max sx sy) sz);
          fov' = (if fov cam = 0 then 45 else fov cam)
      in maxSize / (2 * arctan (pi * fov' / 360)))"

definition fitWidthDistance :: "box3 \<Rightarrow> camera \<Rightarrow> real" where
  "fitWidthDistance b cam =
     fitHeightDistance b cam / (if aspect cam = 0 then 1 else aspect cam)"

definition distance :: "box3 \<Rightarrow> camera \<Rightarrow> real" where
  "distance b cam = (6 / 5) * max (fitHeightDistance b cam) (fitWidthDistance b cam)"

text \<open>
  \<^verbatim>\<open>Vector3.normalize\<close> divides by the length, or by 1 when the length is zero.
\<close>

definition normalize_vec :: "vec3 \<Rightarrow> vec3" where
  "normalize_vec v =
     (case v of (x, y, z) \<Rightarrow>
        (let len = sqrt (x * x + y * y + z * z);
             d = (if len = 0 then 1 else len)
         in (x / d, y / d, z / d)))"

text \<open>
  Lines 56 to 68: the camera afterwards and the orbit target (when there are controls).
\<close>

definition frameCamera :: "box3 \<Rightarrow> camera \<Rightarrow> vec3 option \<Rightarrow> camera \<times> vec3 option" where
  "frameCamera b cam target =
     (let center = getCenter b;
          d = distance b cam;
          direction =
            (case camera_position cam of (px, py, pz) \<Rightarrow> case center of (cx, cy, cz) \<Rightarrow>
               normalize_vec (px - cx, py - cy, pz - cz))
      in (cam\<lparr>camera_position :=
                 (case direction of (dx, dy, dz) \<Rightarrow> case center of (cx, cy, cz) \<Rightarrow>
                    (dx * d + cx, dy * d + cy, dz * d + cz)),
               near := d / 1000, far := d * 1000\<rparr>,
          map_option (\<lambda>t. center) target))"

section \<open>Notions used in the statements\<close>

text \<open>
  The extensions \<^verbatim>\<open>loadModel\<close> has a case for, and the error with which the parser
  that \<^verbatim>\<open>loadModel\<close> calls for an extension rejects a buffer.
\<close>

definition supported :: "string set" where
  "supported = {''glb'', ''gltf'', ''obj'', ''ply'', ''pcd'', ''xyz''}"

definition parser_error :: "world \<Rightarrow> string \<Rightarrow> nat list \<Rightarrow> error option" where
  "parser_error w ext buffer =
     (if ext = ''glb'' \<or> ext = ''gltf'' then
        (case gltf_parse w buffer of Inl e \<Rightarrow> Some e | Inr _ \<Rightarrow> None)
      else if ext = ''obj'' then
        (case obj_parse w (decode w buffer) of Inl e \<Rightarrow> Some e | Inr _ \<Rightarrow> None)
      else if ext = ''ply'' then
        (case ply_parse w buffer of Inl e \<Rightarrow> Some e | Inr _ \<Rightarrow> None)
      else if ext = ''pcd'' then
        (case pcd_parse w buffer of Inl e \<Rightarrow> Some e | Inr _ \<Rightarrow> None)
      else if ext = ''xyz'' then
        (case xyz_parse w (decode w buffer) of Inl e \<Rightarrow> Some e | Inr _ \<Rightarrow> None)
      else None)"

text \<open>
  The parse result that the next continuation of a load hands to \<^verbatim>\<open>processResult\<close>, if
  it gets that far, and the object \<^verbatim>\<open>processResult\<close> installs for a parse result.
\<close>

definition pending_result :: "world \<Rightarrow> load \<Rightarrow> parse_result option" where
  "pending_result w l =
     (case l_phase l of
        AwaitFetch \<Rightarrow>
          (case fetch w (l_url l) of
             Inl e \<Rightarrow> None
           | Inr buffer \<Rightarrow>
               (if l_ext l = ''obj'' then
                  (case obj_parse w (decode w buffer) of Inl e \<Rightarrow> None | Inr x \<Rightarrow> Some (ObjectResult x))
                else if l_ext l = ''ply'' then
                  (case ply_parse w buffer of Inl e \<Rightarrow> None | Inr x \<Rightarrow> Some (GeometryResult x))
                else if l_ext l = ''pcd'' then
                  (case pcd_parse w buffer of Inl e \<Rightarrow> None | Inr x \<Rightarrow> Some (ObjectResult x))
                else if l_ext l = ''xyz'' then
                  (case xyz_parse w (decode w buffer) of Inl e \<Rightarrow> None | Inr x \<Rightarrow> Some (GeometryResult x))
                else None))
      | AwaitParse buffer \<Rightarrow>
          (case gltf_parse w buffer of
             Inl e \<Rightarrow> None
           | Inr (scene, anims) \<Rightarrow> Some (GltfResult scene anims))
      | Finished \<Rightarrow> None)"

definition installs :: "rat \<Rightarrow> string \<Rightarrow> parse_result \<Rightarrow> (object3d \<times> metadata) option" where
  "installs pointSize ext result =
     (case normalize pointSize ext result of
        Inl e \<Rightarrow> None
      | Inr (object, modelAnimations, k) \<Rightarrow>
          (case traverse ext object (initial_stats k) of
             (object', st) \<Rightarrow> Some (object', metadata_of st modelAnimations)))"





text \<open>
  The nodes of an object in the order \<^verbatim>\<open>traverse\<close> visits them; the position count a
  mesh node adds to the triangle sum; the identities of the materials attached to a mesh
  or points node; the metadata last handed to \<^verbatim>\<open>onModelMetadata\<close>.
\<close>

fun nodes_of :: "object3d \<Rightarrow> node list" where
  "nodes_of (Object3D n cs) = n # concat (map nodes_of cs)"

definition mesh_positions :: "node \<Rightarrow> nat" where
  "mesh_positions n =
     (if isMesh n then (case position_count (geometry n) of Some c \<Rightarrow> c | None \<Rightarrow> 0) else 0)"

definition slot_materials :: "material_slot \<Rightarrow> material list" where
  "slot_materials s = (case s of NoMaterial \<Rightarrow> [] | Single m \<Rightarrow> [m] | Multi ms \<Rightarrow> ms)"

definition node_material_ids :: "node \<Rightarrow> uuid list" where
  "node_material_ids n =
     (if isMesh n \<or> isPoints n then map uuid (slot_materials (material n)) else [])"

definition material_ids :: "object3d \<Rightarrow> uuid list" where
  "material_ids object = concat (map node_material_ids (nodes_of object))"

definition mesh_material_ids :: "node \<Rightarrow> uuid list" where
  "mesh_material_ids n = (if isMesh n then map uuid (slot_materials (material n)) else [])"

text \<open>The callback run over a list of nodes in order, for the proofs about \<^verbatim>\<open>traverse\<close>.\<close>

fun visit_all :: "string \<Rightarrow> node list \<Rightarrow> stats \<Rightarrow> node list \<times> stats" where
  "visit_all ext [] st = ([], st)"
| "visit_all ext (n # ns) st =
     (case visit ext n st of
        (n', st1) \<Rightarrow>
          (case visit_all ext ns st1 of
             (ns', st2) \<Rightarrow> (n' # ns', st2)))"

fun reported :: "event list \<Rightarrow> metadata option" where
  "reported [] = None"
| "reported (e # es) =
     (case reported es of
        Some md \<Rightarrow> Some md
      | None \<Rightarrow> (case e of ModelMetadata md \<Rightarrow> Some md | _ \<Rightarrow> None))"

section \<open>Example assets\<close>

definition parsed_material :: "nat \<Rightarrow> material" where
  "parsed_material k =
     \<lparr>uuid = Parsed k, mtype = OtherMaterial, color = Some 0xffffff, map_tex = None,
      normalMap = None, roughnessMap = None, metalnessMap = None, emissiveMap = None\<rparr>"

definition mesh_node :: "nat \<Rightarrow> nat option \<Rightarrow> material_slot \<Rightarrow> node" where
  "mesh_node positions indices mat =
     \<lparr>ntype = Mesh,
      geometry = \<lparr>position_count = Some positions, index_count = indices, hasColor = False\<rparr>,
      material = mat, frustumCulled = True\<rparr>"

definition group_node :: node where
  "group_node =
     \<lparr>ntype = Group,
      geometry = \<lparr>position_count = None, index_count = None, hasColor = False\<rparr>,
      material = NoMaterial, frustumCulled = True\<rparr>"

text \<open>
  A mesh of 1000 vertices without an index buffer: its position array holds 3000
  numbers, and \<^verbatim>\<open>attributes.position.count\<close> is 1000.
\<close>

definition soup :: object3d where
  "soup = Object3D (mesh_node 1000 None (Single (parsed_material 1))) []"

text \<open>A pyramid: five positions, six indexed triangles.\<close>

definition pyramid :: object3d where
  "pyramid = Object3D group_node [Object3D (mesh_node 5 (Some 18) (Single (parsed_material 1))) []]"

text \<open>Two meshes that share material 7, and a third mesh with material 8.\<close>

definition two_sharing :: object3d where
  "two_sharing =
     Object3D group_node
       [Object3D (mesh_node 3 None (Single (parsed_material 7))) [],
        Object3D (mesh_node 3 None (Single (parsed_material 7))) []]"

definition three_meshes :: object3d where
  "three_meshes =
     Object3D group_node
       [Object3D (mesh_node 3 None (Single (parsed_material 7))) [],
        Object3D (mesh_node 3 None (Single (parsed_material 7))) [],
        Object3D (mesh_node 3 None (Single (parsed_material 8))) []]"

text \<open>A point cloud of 100 points, as the PCD loader returns it.\<close>

definition cloud :: object3d where
  "cloud =
     Object3D
       \<lparr>ntype = Points,
        geometry = \<lparr>position_count = Some 100, index_count = None, hasColor = False\<rparr>,
        material = Single (parsed_material 3), frustumCulled = True\<rparr> []"

text \<open>
  A world in which one URL cannot be fetched and the PLY loader rejects every buffer.
\<close>

definition example_world :: world where
  "example_world =
     \<lparr>fetch = (\<lambda>url. if url = ''blob:missing'' then Inl (Error ''Failed to fetch'') else Inr [1, 2, 3]),
      decode = (\<lambda>buffer. ''v 0 0 0''),
      gltf_parse = (\<lambda>buffer. Inr (three_meshes, [])),
      obj_parse = (\<lambda>text. Inr two_sharing),
      ply_parse = (\<lambda>buffer. Inl (Error ''PLYLoader: unknown header'')),
      pcd_parse = (\<lambda>buffer. Inr cloud),
      xyz_parse = (\<lambda>text. Inr \<lparr>position_count = Some 1, index_count = None, hasColor = False\<rparr>)\<rparr>"

text \<open>Two animation clips.\<close>

definition walk :: clip where
  "walk = \<lparr>clip_uuid = 1, clip_name = ''Walk''\<rparr>"

definition sprint :: clip where
  "sprint = \<lparr>clip_uuid = 2, clip_name = ''Run''\<rparr>"

text \<open>The viewer after a glb asset with the two clips has been loaded: clip 0 plays.\<close>

definition two_clip_viewer :: viewer where
  "two_clip_viewer =
     (case processResult (1 / 20) ''glb'' (GltfResult soup [walk, sprint]) initial_viewer of
        Inr v \<Rightarrow> v\<lparr>emitted := []\<rparr>
      | Inl e \<Rightarrow> initial_viewer)"

text \<open>Two loads have been started; the second has finished, the first is still at its fetch.\<close>

definition two_pending :: app where
  "two_pending =
     run example_world
       [PropsChange (Some ''blob:a'') (Some ''obj'') (1 / 20),
        PropsChange (Some ''blob:b'') (Some ''pcd'') (1 / 20),
        Resume 1] initial_app"

text \<open>
  A bounding box of extents 2, 1, 1, and the camera the canvas creates (position
  (5, 5, 5), field of view 45 degrees), with aspect ratio 1.
\<close>

definition box211 :: box3 where
  "box211 = \<lparr>box_min = (0, 0, 0), box_max = (2, 1, 1)\<rparr>"

definition canvas_camera :: camera where
  "canvas_camera =
     \<lparr>camera_position = (5, 5, 5), fov = 45, aspect = 1, near = 1 / 10, far = 1000\<rparr>"

text \<open>
  A displayed model of two objects in the store; a library whose box centre of an object
  lies at a fixed offset from the object's position, with an exporter that succeeds; and
  an export configuration.
\<close>

definition live_store :: store where
  "live_store =
     [\<lparr>obj = group_node, position = (1, 0, 0), children = [1], parent = None\<rparr>,
      \<lparr>obj = mesh_node 3 None (Single (parsed_material 7)), position = (0, 2, 0),
        children = [], parent = Some 0\<rparr>]"

definition example_three :: three where
  "example_three =
     \<lparr>boxCenter = (\<lambda>h a. case position (h ! a) of (x, y, z) \<Rightarrow> (x - 1 / 2, y + 1, z)),
      exporter_parse = (\<lambda>h a options. Inr [103, 108, 84, 70])\<rparr>"

definition robot_config :: ExportConfig where
  "robot_config = \<lparr>draco = True, ktx2 = False, fileName = ''robot.gltf''\<rparr>"

section \<open>Properties\<close>

subsection \<open>The traversal as a fold over the nodes\<close>

lemma reported_append_md [simp]: "reported (es @ [ModelMetadata md]) = Some md"
  by (induction es) auto

lemma reported_append_other:
  "(\<And>md. e \<noteq> ModelMetadata md) \<Longrightarrow> reported (es @ [e]) = reported es"
  by (induction es) (auto split: option.splits event.splits)

lemma traverse_stats:
  "snd (traverse ext t st) = fold (\<lambda>n s. snd (visit ext n s)) (nodes_of t) st"
  "snd (traverse_children ext ts st) = fold (\<lambda>n s. snd (visit ext n s)) (concat (map nodes_of ts)) st"
  by (induction ext t st and ext ts st rule: traverse_traverse_children.induct)
     (auto split: prod.splits)

lemma fold_keeps:
  assumes "\<And>x s. P (f x s) = P s"
  shows "P (fold f xs s) = P s"
  using assms by (induction xs arbitrary: s) auto

lemma triangles_count_material [simp]: "triangles (count_material m st) = triangles st"
  unfolding count_material_def
  by (subst fold_keeps [where P = triangles]) (auto simp: count_texture_def split: option.splits)

lemma triangles_fold_count_material [simp]:
  "triangles (fold count_material ms st) = triangles st"
  by (rule fold_keeps) simp

lemma visit_triangles:
  "triangles (snd (visit ext n st)) = triangles st + of_nat (mesh_positions n) / 3"
  by (auto simp: visit_def mesh_positions_def Let_def isMesh_def isPoints_def
      split: option.splits material_slot.splits prod.splits)

lemma fold_visit_triangles:
  "triangles (fold (\<lambda>n s. snd (visit ext n s)) ns st)
     = triangles st + of_nat (sum_list (map mesh_positions ns)) / 3"
  by (induction ns arbitrary: st) (auto simp: visit_triangles add_divide_distrib)

lemma round_thirds: "round (of_nat n / 3 :: rat) = (int n + 1) div 3"
proof -
  define q where "q = n div 3"
  define r where "r = n mod 3"
  have n: "n = 3 * q + r" and "r < 3"
    by (simp_all add: q_def r_def)
  then have "r = 0 \<or> r = 1 \<or> r = 2" by arith
  then show ?thesis
  proof (elim disjE)
    assume r: "r = 0"
    have e: "(of_nat n / 3 :: rat) = of_int (int q)" using n r by simp
    have "round (of_nat n / 3 :: rat) = round (of_int (int q) :: rat)" by (simp only: e)
    also have "\<dots> = int q" by (rule round_of_int)
    also have "\<dots> = (int n + 1) div 3" using n r by simp
    finally show ?thesis .
  next
    assume r: "r = 1"
    have e: "(of_nat n / 3 :: rat) = of_int (int q) + 1 / 3"
      using n r by (simp add: add_divide_distrib)
    have "round (of_nat n / 3 :: rat) = round (of_int (int q) + 1 / 3 :: rat)" by (simp only: e)
    also have "\<dots> = int q" by (rule round_unique') simp
    also have "\<dots> = (int n + 1) div 3" using n r by simp
    finally show ?thesis .
  next
    assume r: "r = 2"
    have e: "(of_nat n / 3 :: rat) = of_int (int q + 1) - 1 / 3"
      using n r by (simp add: add_divide_distrib)
    have "round (of_nat n / 3 :: rat) = round (of_int (int q + 1) - 1 / 3 :: rat)" by (simp only: e)
    also have "\<dots> = int q + 1" by (rule round_unique') simp
    also have "\<dots> = (int n + 1) div 3" using n r by simp
    finally show ?thesis .
  qed
qed

lemma visit_mesh_positions: "mesh_positions (fst (visit ext n st)) = mesh_positions n"
  by (auto simp: visit_def mesh_positions_def Let_def isMesh_def isPoints_def isSkinnedMesh_def
      split: option.splits material_slot.splits prod.splits)

lemma visit_mesh_positions':
  "visit ext n st = (n', st1) \<Longrightarrow> mesh_positions n' = mesh_positions n"
  using visit_mesh_positions [of ext n st] by simp

lemma traverse_mesh_positions:
  "map mesh_positions (nodes_of (fst (traverse ext t st))) = map mesh_positions (nodes_of t)"
  "map mesh_positions (concat (map nodes_of (fst (traverse_children ext ts st))))
     = map mesh_positions (concat (map nodes_of ts))"
  by (induction ext t st and ext ts st rule: traverse_traverse_children.induct)
     (auto split: prod.splits dest: visit_mesh_positions')

lemma reported_append:
  "reported (es @ es') = (case reported es' of Some md \<Rightarrow> Some md | None \<Rightarrow> reported es)"
  by (induction es) (auto split: option.splits)

lemma processResult_Inr:
  assumes "processResult pointSize ext result v = Inr v'"
  obtains object modelAnimations k where
    "normalize pointSize ext result = Inr (object, modelAnimations, k)"
    "model v' = Some (fst (traverse ext object (initial_stats k)))"
    "reported (emitted v') =
       Some (metadata_of (snd (traverse ext object (initial_stats k))) modelAnimations)"
proof -
  from assms obtain object modelAnimations k where
    n: "normalize pointSize ext result = Inr (object, modelAnimations, k)"
    by (auto simp: processResult_def split: sum.splits)
  obtain object' st where t: "traverse ext object (initial_stats k) = (object', st)"
    by (cases "traverse ext object (initial_stats k)")
  have "model v' = Some object'"
    using assms n t by (auto simp: processResult_def emit_def Let_def split: list.splits)
  moreover have "reported (emitted v') = Some (metadata_of st modelAnimations)"
    using assms n t by (auto simp: processResult_def emit_def Let_def reported_append split: list.splits)
  ultimately show thesis using that [OF n] t by simp
qed

lemma floor_rat_numeral:
  "\<lfloor>numeral a / numeral b :: rat\<rfloor> = numeral a div numeral b"
  using floor_divide_of_int_eq [of "numeral a" "numeral b", where ?'a = rat] by simp

lemma round_rat_numeral:
  "round (numeral a / numeral b :: rat) = (2 * numeral a + numeral b) div (2 * numeral b)"
proof -
  have "(numeral a / numeral b + 1 / 2 :: rat)
          = of_int (2 * numeral a + numeral b) / of_int (2 * numeral b)"
    by (simp add: field_simps)
  then show ?thesis
    unfolding round_def by (simp only: floor_divide_of_int_eq)
qed

lemmas eval_defs = processResult_def normalize_def visit_def count_material_def count_texture_def
  initial_stats_def metadata_of_def emit_def isMesh_def isPoints_def isSkinnedMesh_def
  mesh_node_def group_node_def parsed_material_def initial_viewer_def Let_def
  mesh_positions_def replacement_def newMeshStandardMaterial_def newPointsMaterial_def

lemma soup_result:
  "processResult (1 / 20) ''glb'' (GltfResult soup []) initial_viewer
     = Inr (initial_viewer\<lparr>model := Some soup,
              emitted := [ModelMetadata \<lparr>md_vertices = 1000, md_triangles = 333, md_meshes = 1,
                            md_materials = 1, md_textures = 0, md_animations = []\<rparr>,
                          FrameCameraLater]\<rparr>)"
  by (simp add: eval_defs soup_def round_rat_numeral)


subsection \<open>Triangle count\<close>

text \<open>
  C1 (as amended).  After \<^verbatim>\<open>processResult\<close> the triangle count handed to
  \<^verbatim>\<open>onModelMetadata\<close> is the sum, over the mesh nodes of the installed object that have
  a position attribute, of the attribute's \<^verbatim>\<open>count\<close> divided by 3, rounded once at the
  end to the nearest integer by \<^verbatim>\<open>Math.round\<close> (not rounded down): it is
  \<open>(s + 1) div 3\<close> for the sum \<open>s\<close> of the counts.  The \<^verbatim>\<open>count\<close> of a position
  attribute is its number of vertices, so a single mesh whose position array holds 3000
  numbers (1000 vertices) and no index buffer is reported with 333 triangles and 1000
  vertices, not with 1000 triangles (the example \<open>soup\<close>).  The sum is taken in
  rationals: a sum of thirds is at least 1/6 away from the next half, far more than the
  error of the floating-point sum for assets of any realistic size.
\<close>

theorem processResult_triangles:
  assumes "processResult pointSize ext result v = Inr v'"
  shows "\<exists>object md. model v' = Some object \<and> reported (emitted v') = Some md
           \<and> md_triangles md
               = round (of_nat (sum_list (map mesh_positions (nodes_of object))) / 3 :: rat)
           \<and> md_triangles md
               = (int (sum_list (map mesh_positions (nodes_of object))) + 1) div 3"
proof -
  from assms obtain object modelAnimations k where
    m: "model v' = Some (fst (traverse ext object (initial_stats k)))" and
    r: "reported (emitted v') =
          Some (metadata_of (snd (traverse ext object (initial_stats k))) modelAnimations)"
    by (rule processResult_Inr)
  let ?o = "fst (traverse ext object (initial_stats k))"
  let ?st = "snd (traverse ext object (initial_stats k))"
  have "triangles ?st = of_nat (sum_list (map mesh_positions (nodes_of object))) / 3"
    by (simp add: traverse_stats fold_visit_triangles initial_stats_def)
  also have "sum_list (map mesh_positions (nodes_of object))
               = sum_list (map mesh_positions (nodes_of ?o))"
    by (simp add: traverse_mesh_positions)
  finally have t: "triangles ?st = of_nat (sum_list (map mesh_positions (nodes_of ?o))) / 3" .
  have "md_triangles (metadata_of ?st modelAnimations)
          = round (of_nat (sum_list (map mesh_positions (nodes_of ?o))) / 3 :: rat)"
    by (simp add: metadata_of_def t)
  then show ?thesis using m r round_thirds by auto
qed


text \<open>
  The pyramid has five positions: \<^verbatim>\<open>Math.round\<close> reports 2 where rounding down gives 1.
  The mesh of 1000 vertices (3000 position numbers) is reported with 333 triangles, not
  1000.
\<close>

theorem triangles_floor_counterexample:
  "(case processResult (1 / 20) ''glb'' (GltfResult pyramid []) initial_viewer of
      Inl e \<Rightarrow> False
    | Inr v' \<Rightarrow>
        map_option md_triangles (reported (emitted v')) = Some 2
        \<and> map_option (\<lambda>object. \<lfloor>of_nat (sum_list (map mesh_positions (nodes_of object))) / 3 :: rat\<rfloor>)
             (model v') = Some 1)
   \<and> (case processResult (1 / 20) ''glb'' (GltfResult soup []) initial_viewer of
        Inl e \<Rightarrow> False
      | Inr v' \<Rightarrow>
          map_option md_triangles (reported (emitted v')) = Some 333
          \<and> map_option md_triangles (reported (emitted v')) \<noteq> Some 1000
          \<and> map_option md_vertices (reported (emitted v')) = Some 1000)"
  by (simp add: eval_defs pyramid_def soup_def round_rat_numeral floor_rat_numeral)

theorem processResult_triangles_witness:
  "\<exists>v' object md.
      processResult (1 / 20) ''glb'' (GltfResult soup []) initial_viewer = Inr v'
      \<and> model v' = Some object \<and> reported (emitted v') = Some md
      \<and> md_triangles md = (int (sum_list (map mesh_positions (nodes_of object))) + 1) div 3
      \<and> sum_list (map mesh_positions (nodes_of object)) = 1000
      \<and> md_triangles md = 333 \<and> md_vertices md = 1000"
proof -
  let ?v = "initial_viewer\<lparr>model := Some soup,
              emitted := [ModelMetadata \<lparr>md_vertices = 1000, md_triangles = 333, md_meshes = 1,
                            md_materials = 1, md_textures = 0, md_animations = []\<rparr>,
                          FrameCameraLater]\<rparr>"
  from processResult_triangles [OF soup_result] obtain object md where
    m: "model ?v = Some object" and r: "reported (emitted ?v) = Some md" and
    t: "md_triangles md = (int (sum_list (map mesh_positions (nodes_of object))) + 1) div 3"
    by blast
  from m have o: "object = soup" by simp
  have s: "sum_list (map mesh_positions (nodes_of object)) = 1000"
    unfolding o by (simp add: soup_def mesh_node_def mesh_positions_def isMesh_def)
  have "md_triangles md = 333" unfolding t s by simp
  moreover from r have "md_vertices md = 1000" by (auto simp: initial_viewer_def)
  ultimately show ?thesis using soup_result m r t s by (intro exI conjI)
qed

subsection \<open>Material count\<close>

lemma visit_all_append:
  "visit_all ext (xs @ ys) st =
     (case visit_all ext xs st of
        (xs', st1) \<Rightarrow>
          (case visit_all ext ys st1 of
             (ys', st2) \<Rightarrow> (xs' @ ys', st2)))"
  by (induction xs arbitrary: st) (auto split: prod.splits)

lemma traverse_visit_all:
  "(nodes_of (fst (traverse ext t st)), snd (traverse ext t st)) = visit_all ext (nodes_of t) st"
  "(concat (map nodes_of (fst (traverse_children ext ts st))), snd (traverse_children ext ts st))
     = visit_all ext (concat (map nodes_of ts)) st"
  by (induction ext t st and ext ts st rule: traverse_traverse_children.induct)
     (auto simp: visit_all_append split: prod.splits)

lemma traverse_nodes: "nodes_of (fst (traverse ext t st)) = fst (visit_all ext (nodes_of t) st)"
  by (metis fst_conv traverse_visit_all(1))

lemma traverse_snd: "snd (traverse ext t st) = snd (visit_all ext (nodes_of t) st)"
  by (metis snd_conv traverse_visit_all(1))

lemma materialsCount_count_material [simp]:
  "materialsCount (count_material m st) = List.insert (uuid m) (materialsCount st)"
  unfolding count_material_def
  by (subst fold_keeps [where P = materialsCount]) (auto simp: count_texture_def split: option.splits)

lemma created_count_material [simp]: "created (count_material m st) = created st"
  unfolding count_material_def
  by (subst fold_keeps [where P = created]) (auto simp: count_texture_def split: option.splits)

lemma materialsCount_fold_count_material [simp]:
  "materialsCount (fold count_material ms st) = fold List.insert (map uuid ms) (materialsCount st)"
  by (induction ms arbitrary: st) auto

lemma created_fold_count_material [simp]: "created (fold count_material ms st) = created st"
  by (rule fold_keeps) simp

lemma visit_materialsCount:
  "visit ext n st = (n', st1) \<Longrightarrow>
     materialsCount st1 = fold List.insert (node_material_ids n') (materialsCount st)"
  by (auto simp: visit_def node_material_ids_def slot_materials_def Let_def isMesh_def isPoints_def
        isSkinnedMesh_def
      split: option.splits material_slot.splits prod.splits if_splits)

lemma visit_all_materialsCount:
  "visit_all ext ns st = (ns', st') \<Longrightarrow>
     materialsCount st' = fold List.insert (concat (map node_material_ids ns')) (materialsCount st)"
proof (induction ns arbitrary: st ns' st')
  case Nil
  then show ?case by simp
next
  case (Cons n ns)
  obtain n1 st1 where v: "visit ext n st = (n1, st1)" by (cases "visit ext n st")
  obtain ns2 st2 where r: "visit_all ext ns st1 = (ns2, st2)" by (cases "visit_all ext ns st1")
  from Cons.prems v r have e: "ns' = n1 # ns2" "st' = st2" by simp_all
  show ?case
    unfolding e using visit_materialsCount [OF v] Cons.IH [OF r] by simp
qed

lemma fold_insert_set:
  "distinct ys \<Longrightarrow> distinct (fold List.insert xs ys) \<and> set (fold List.insert xs ys) = set xs \<union> set ys"
  by (induction xs arbitrary: ys) auto

lemma length_fold_insert: "length (fold List.insert xs []) = card (set xs)"
  using fold_insert_set [of "[]" xs] distinct_card [of "fold List.insert xs []"] by simp

lemma visit_interchange:
  "ext = ''glb'' \<or> ext = ''gltf'' \<Longrightarrow> visit ext n st = (n', st1) \<Longrightarrow>
     node_material_ids n' = node_material_ids n"
  by (auto simp: visit_def node_material_ids_def Let_def isMesh_def isPoints_def isSkinnedMesh_def
      split: option.splits material_slot.splits prod.splits if_splits)

lemma visit_all_interchange:
  "ext = ''glb'' \<or> ext = ''gltf'' \<Longrightarrow> visit_all ext ns st = (ns', st') \<Longrightarrow>
     map node_material_ids ns' = map node_material_ids ns"
proof (induction ns arbitrary: st ns' st')
  case Nil
  then show ?case by simp
next
  case (Cons n ns)
  obtain n1 st1 where v: "visit ext n st = (n1, st1)" by (cases "visit ext n st")
  obtain ns2 st2 where r: "visit_all ext ns st1 = (ns2, st2)" by (cases "visit_all ext ns st1")
  from Cons.prems v r have e: "ns' = n1 # ns2" by simp
  show ?case
    unfolding e using visit_interchange [OF Cons.prems(1) v] Cons.IH [OF Cons.prems(1) r] by simp
qed

lemma visit_replaces:
  "ext \<noteq> ''glb'' \<Longrightarrow> ext \<noteq> ''gltf'' \<Longrightarrow> visit ext n st = (n', st1) \<Longrightarrow>
     mesh_material_ids n' = map Created [created st ..< created st1] \<and> created st \<le> created st1"
  by (auto simp: visit_def mesh_material_ids_def slot_materials_def Let_def isMesh_def isPoints_def
        isSkinnedMesh_def replacement_def newMeshStandardMaterial_def
      split: option.splits material_slot.splits prod.splits if_splits)

lemma map_upt_append:
  "a \<le> b \<Longrightarrow> b \<le> c \<Longrightarrow> map f [a ..< b] @ map f [b ..< c] = map f [a ..< c]"
  by (metis le_Suc_ex map_append upt_add_eq_append)

lemma visit_all_replaces:
  "ext \<noteq> ''glb'' \<Longrightarrow> ext \<noteq> ''gltf'' \<Longrightarrow> visit_all ext ns st = (ns', st') \<Longrightarrow>
     concat (map mesh_material_ids ns') = map Created [created st ..< created st']
     \<and> created st \<le> created st'"
proof (induction ns arbitrary: st ns' st')
  case Nil
  then show ?case by simp
next
  case (Cons n ns)
  obtain n1 st1 where v: "visit ext n st = (n1, st1)" by (cases "visit ext n st")
  obtain ns2 st2 where r: "visit_all ext ns st1 = (ns2, st2)" by (cases "visit_all ext ns st1")
  from Cons.prems v r have e: "ns' = n1 # ns2" "st' = st2" by simp_all
  from visit_replaces [OF Cons.prems(1,2) v]
  have a: "mesh_material_ids n1 = map Created [created st ..< created st1]"
    and a': "created st \<le> created st1" by simp_all
  from Cons.IH [OF Cons.prems(1,2) r]
  have b: "concat (map mesh_material_ids ns2) = map Created [created st1 ..< created st2]"
    and b': "created st1 \<le> created st2" by simp_all
  show ?case unfolding e using a b a' b' by (simp add: map_upt_append)
qed

lemma three_meshes_result:
  "processResult (1 / 20) ''glb'' (GltfResult three_meshes []) initial_viewer
     = Inr (initial_viewer\<lparr>model := Some three_meshes,
              emitted := [ModelMetadata \<lparr>md_vertices = 9, md_triangles = 3, md_meshes = 3,
                            md_materials = 2, md_textures = 0, md_animations = []\<rparr>,
                          FrameCameraLater]\<rparr>)"
  by (simp add: eval_defs three_meshes_def round_rat_numeral)

lemma two_sharing_result:
  "processResult (1 / 20) ''glb'' (GltfResult two_sharing []) initial_viewer
     = Inr (initial_viewer\<lparr>model := Some two_sharing,
              emitted := [ModelMetadata \<lparr>md_vertices = 6, md_triangles = 2, md_meshes = 2,
                            md_materials = 1, md_textures = 0, md_animations = []\<rparr>,
                          FrameCameraLater]\<rparr>)"
  by (simp add: eval_defs two_sharing_def round_rat_numeral)

text \<open>
  C2 (as amended).  The material count handed to \<^verbatim>\<open>onModelMetadata\<close> is the number of
  distinct identities among the materials attached, when \<^verbatim>\<open>processResult\<close> is done, to
  the mesh and points nodes of the installed object.  For glb and gltf these are the
  materials of the parsed scene, so two nodes sharing one material count once and a third
  node with another material brings the count to 2.  For every other format
  \<^verbatim>\<open>processResult\<close> gives each mesh node that has a material a new material of its own
  before counting, so no two mesh nodes of the installed object share a material.
\<close>

theorem processResult_materials:
  assumes "processResult pointSize ext result v = Inr v'"
  shows "\<exists>object md. model v' = Some object \<and> reported (emitted v') = Some md
           \<and> md_materials md = card (set (material_ids object))
           \<and> (ext = ''glb'' \<or> ext = ''gltf'' \<longrightarrow>
                (\<exists>scene anims. result = GltfResult scene anims
                   \<and> material_ids object = material_ids scene))
           \<and> (ext \<noteq> ''glb'' \<and> ext \<noteq> ''gltf'' \<longrightarrow>
                distinct (concat (map mesh_material_ids (nodes_of object))))"
proof -
  from assms obtain object0 modelAnimations k where
    n: "normalize pointSize ext result = Inr (object0, modelAnimations, k)" and
    m: "model v' = Some (fst (traverse ext object0 (initial_stats k)))" and
    r: "reported (emitted v') =
          Some (metadata_of (snd (traverse ext object0 (initial_stats k))) modelAnimations)"
    by (rule processResult_Inr)
  let ?o = "fst (traverse ext object0 (initial_stats k))"
  let ?st = "snd (traverse ext object0 (initial_stats k))"
  have va: "visit_all ext (nodes_of object0) (initial_stats k) = (nodes_of ?o, ?st)"
    by (simp add: traverse_visit_all(1) [symmetric])
  have "materialsCount ?st = fold List.insert (material_ids ?o) []"
    using visit_all_materialsCount [OF va] by (simp add: material_ids_def initial_stats_def)
  then have c: "md_materials (metadata_of ?st modelAnimations) = card (set (material_ids ?o))"
    by (simp add: metadata_of_def length_fold_insert)
  have i: "\<exists>scene anims. result = GltfResult scene anims \<and> material_ids ?o = material_ids scene"
    if e: "ext = ''glb'' \<or> ext = ''gltf''"
  proof -
    from n e obtain anims where g: "result = GltfResult object0 anims"
      by (auto simp: normalize_def split: parse_result.splits)
    have "material_ids ?o = material_ids object0"
      using visit_all_interchange [OF e va] by (simp add: material_ids_def)
    with g show ?thesis by blast
  qed
  have d: "distinct (concat (map mesh_material_ids (nodes_of ?o)))"
    if e: "ext \<noteq> ''glb'' \<and> ext \<noteq> ''gltf''"
  proof -
    from e have "concat (map mesh_material_ids (nodes_of ?o))
                   = map Created [created (initial_stats k) ..< created ?st]"
      using visit_all_replaces [OF _ _ va] by simp
    then show ?thesis by (simp add: distinct_map inj_on_def)
  qed
  show ?thesis using m r c i d by auto
qed

text \<open>An OBJ result whose two meshes share one material is reported with 2 materials.\<close>

theorem materials_obj_counterexample:
  "case processResult (1 / 20) ''obj'' (ObjectResult two_sharing) initial_viewer of
     Inl e \<Rightarrow> False
   | Inr v' \<Rightarrow>
       map_option md_materials (reported (emitted v')) = Some 2
       \<and> card (set (material_ids two_sharing)) = 1"
  by (simp add: eval_defs two_sharing_def round_rat_numeral material_ids_def node_material_ids_def
        slot_materials_def)

theorem processResult_materials_witness:
  "\<exists>v' object md.
      processResult (1 / 20) ''glb'' (GltfResult three_meshes []) initial_viewer = Inr v'
      \<and> model v' = Some object \<and> reported (emitted v') = Some md
      \<and> md_materials md = card (set (material_ids object))
      \<and> material_ids object = material_ids three_meshes
      \<and> md_materials md = 2"
proof -
  let ?v = "initial_viewer\<lparr>model := Some three_meshes,
              emitted := [ModelMetadata \<lparr>md_vertices = 9, md_triangles = 3, md_meshes = 3,
                            md_materials = 2, md_textures = 0, md_animations = []\<rparr>,
                          FrameCameraLater]\<rparr>"
  from processResult_materials [OF three_meshes_result] obtain object md where
    m: "model ?v = Some object" and r: "reported (emitted ?v) = Some md" and
    c: "md_materials md = card (set (material_ids object))" and
    i: "\<exists>scene anims. GltfResult three_meshes [] = GltfResult scene anims
          \<and> material_ids object = material_ids scene"
    by auto
  from i have e: "material_ids object = material_ids three_meshes" by simp
  from r have "md_materials md = 2" by (auto simp: initial_viewer_def)
  with three_meshes_result m r c e show ?thesis by (intro exI conjI)
qed

subsection \<open>Classification of a PLY geometry\<close>

text \<open>
  C6.  A parsed \<^verbatim>\<open>.ply\<close> geometry without an index buffer, or with an empty one, is
  wrapped in a \<^verbatim>\<open>Points\<close> node with a points material; one with a non-empty index
  buffer is wrapped in a \<^verbatim>\<open>Mesh\<close> node with a standard material of the default grey
  (lines 231 to 252).  The installed object is that node; for the mesh the traversal has
  replaced the material by another standard material of the same colour.
\<close>

theorem ply_classification:
  "normalize pointSize ''ply'' (GeometryResult g)
     = Inr (Object3D
              \<lparr>ntype = (if index_count g = None \<or> index_count g = Some 0 then Points else Mesh),
               geometry = g,
               material =
                 Single (if index_count g = None \<or> index_count g = Some 0
                         then newPointsMaterial (Created 0) pointSize (hasColor g)
                         else newMeshStandardMaterial (Created 0) 0x808080 None (1 / 2) (1 / 2)),
               frustumCulled = True\<rparr> [],
            [], 1)
   \<and> (\<exists>v' n m.
         processResult pointSize ''ply'' (GeometryResult g) v = Inr v'
         \<and> model v' = Some (Object3D n []) \<and> geometry n = g \<and> material n = Single m
         \<and> ntype n = (if index_count g = None \<or> index_count g = Some 0 then Points else Mesh)
         \<and> mtype m = (if index_count g = None \<or> index_count g = Some 0
                       then PointsMaterial pointSize (hasColor g) True
                       else MeshStandardMaterial (3 / 5) (1 / 5))
         \<and> color m = (if index_count g = None \<or> index_count g = Some 0
                       then Some 0xffffff else Some 0x808080))"
proof (cases "index_count g = None \<or> index_count g = Some 0")
  case True
  then show ?thesis
    by (auto simp: eval_defs split: option.splits)
next
  case False
  then obtain c where "index_count g = Some c" "c \<noteq> 0" by (cases "index_count g") auto
  then show ?thesis
    by (auto simp: eval_defs split: option.splits)
qed

lemmas asset_defs = soup_def pyramid_def two_sharing_def three_meshes_def cloud_def

lemmas string_defs = toLowerCase_def toUpperCase_def upper_letters_def lower_letters_def

lemmas load_defs = load_effect_def loadModel_def loadModel_start_def loadModel_fetched_def
  loadModel_parsed_def finish_def handleError_def falsy_def emit_def

subsection \<open>Unsupported extensions\<close>

text \<open>
  C3 (as amended).  For a URL and an extension that are not empty, when the extension in
  lower case is none of glb, gltf, obj, ply, pcd, xyz, the load first requests the byte
  buffer.  When the fetch succeeds the status sink receives the decoding message and then
  \<^verbatim>\<open>Error: Unsupported format: \<close> followed by the extension in lower case; when the fetch fails it
  receives the error of the fetch.  No parser is called, no metadata is reported and the
  \<^verbatim>\<open>model\<close> state is left as it was.
\<close>

theorem unsupported_extension:
  assumes "modelUrl \<noteq> []" and "extension \<noteq> []" and "toLowerCase extension \<notin> supported"
  shows "model (load_effect w pointSize (Some modelUrl) (Some extension) v) = model v
         \<and> emitted (load_effect w pointSize (Some modelUrl) (Some extension) v)
             = emitted v @
               [LoadingStatus ''Fetching data stream...'', FetchBuffer modelUrl] @
               (case fetch w modelUrl of
                  Inl e \<Rightarrow>
                    [LoadingStatus (''Error: '' @ (if message e \<noteq> [] then message e
                                                  else ''Parsing failed''))]
                | Inr buffer \<Rightarrow>
                    [LoadingStatus (''Decoding '' @ toUpperCase (toLowerCase extension) @ '' payloads...''),
                     LoadingStatus (''Error: Unsupported format: '' @ toLowerCase extension)])"
  using assms by (auto simp: load_defs supported_def split: sum.splits)

text \<open>
  For \<^verbatim>\<open>model.STL\<close> the buffer is fetched, and the decoding status emitted, before the
  error is raised.
\<close>

theorem unsupported_fetch_counterexample:
  "emitted (load_effect example_world (1 / 20) (Some ''blob:model'') (Some ''STL'') initial_viewer)
     = [LoadingStatus ''Fetching data stream...'',
        FetchBuffer ''blob:model'',
        LoadingStatus ''Decoding STL payloads...'',
        LoadingStatus ''Error: Unsupported format: stl'']"
  by (simp add: load_defs string_defs example_world_def initial_viewer_def)

theorem unsupported_extension_witness:
  "''blob:model'' \<noteq> [] \<and> ''STL'' \<noteq> [] \<and> toLowerCase ''STL'' \<notin> supported
   \<and> model (load_effect example_world (1 / 20) (Some ''blob:model'') (Some ''STL'') initial_viewer) = None
   \<and> emitted (load_effect example_world (1 / 20) (Some ''blob:model'') (Some ''STL'') initial_viewer)
       = [LoadingStatus ''Fetching data stream...'',
          FetchBuffer ''blob:model'',
          LoadingStatus ''Decoding STL payloads...'',
          LoadingStatus ''Error: Unsupported format: stl'']"
proof -
  have a: "''blob:model'' \<noteq> []" and b: "''STL'' \<noteq> []" by simp_all
  have c: "toLowerCase ''STL'' \<notin> supported" by (simp add: string_defs supported_def)
  from unsupported_extension [OF a b c, of example_world "1 / 20" initial_viewer]
  show ?thesis using a b c
    by (simp add: string_defs example_world_def initial_viewer_def)
qed

subsection \<open>Parser errors\<close>

text \<open>
  C5.  When the buffer is fetched and the parser that \<^verbatim>\<open>loadModel\<close> calls for the
  extension fails with an error carrying a message, the last status the sink receives is
  the label \<^verbatim>\<open>Error: \<close> followed by that message, character for character; nothing is
  reported as metadata and the \<^verbatim>\<open>model\<close> state is left as it was.
\<close>

theorem parser_error_surfaced:
  assumes "fetch w modelUrl = Inr buffer" and "parser_error w ext buffer = Some e"
    and "message e \<noteq> []"
  shows "model (loadModel w pointSize modelUrl ext v) = model v
         \<and> emitted (loadModel w pointSize modelUrl ext v)
             = emitted v @
               [LoadingStatus ''Fetching data stream...'', FetchBuffer modelUrl,
                LoadingStatus (''Decoding '' @ toUpperCase ext @ '' payloads...''),
                ParserCall ext,
                LoadingStatus (''Error: '' @ message e)]"
  using assms by (auto simp: load_defs parser_error_def split: sum.splits if_splits)

theorem parser_error_surfaced_witness:
  "fetch example_world ''blob:model'' = Inr [1, 2, 3]
   \<and> parser_error example_world ''ply'' [1, 2, 3] = Some (Error ''PLYLoader: unknown header'')
   \<and> model (loadModel example_world (1 / 20) ''blob:model'' ''ply'' initial_viewer) = None
   \<and> emitted (loadModel example_world (1 / 20) ''blob:model'' ''ply'' initial_viewer)
       = [LoadingStatus ''Fetching data stream...'', FetchBuffer ''blob:model'',
          LoadingStatus ''Decoding PLY payloads...'',
          ParserCall ''ply'',
          LoadingStatus ''Error: PLYLoader: unknown header'']"
proof -
  have a: "fetch example_world ''blob:model'' = Inr [1, 2, 3]"
    by (simp add: example_world_def)
  have b: "parser_error example_world ''ply'' [1, 2, 3] = Some (Error ''PLYLoader: unknown header'')"
    by (simp add: parser_error_def example_world_def)
  have c: "message (Error ''PLYLoader: unknown header'') \<noteq> []" by simp
  from parser_error_surfaced [OF a b c, of "1 / 20" initial_viewer]
  show ?thesis using a b
    by (simp add: string_defs initial_viewer_def)
qed

subsection \<open>Animation switching\<close>

lemma two_clip_viewer_eq:
  "two_clip_viewer =
     \<lparr>model = Some soup, mixer = True, clips = [walk, sprint], activeAction = Some walk,
      emitted = []\<rparr>"
  by (simp add: two_clip_viewer_def eval_defs soup_def initial_viewer_def)

text \<open>
  C7 (as amended).  When a mixer and clips exist, setting the index runs a switch in
  every case: the active action, if any, is faded out over 0.3, and the action of the
  next clip is reset, faded in over 0.3 and played and becomes the active action.  The
  next clip is the clip at the index, or clip 0 when the index has no clip (negative, or
  at least the number of clips); so an index without a clip is not a no-op: it switches
  to clip 0 and restarts it.  Without a mixer or without clips nothing happens.  Going
  from 0 to 1 on an asset of two clips fades clip 0 out and clip 1 in over 0.3 each
  (\<open>switch_0_to_1\<close>).
\<close>

theorem switchAnimation_fallback:
  "switchAnimation i v =
     (if mixer v \<and> clips v \<noteq> [] then
        (let c = (if 0 \<le> i \<and> i < int (length (clips v)) then clips v ! nat i else clips v ! 0)
         in v\<lparr>activeAction := Some c,
              emitted := emitted v
                @ (case activeAction v of None \<Rightarrow> [] | Some a \<Rightarrow> [FadeOut a (3 / 10)])
                @ [Reset c, FadeIn c (3 / 10), Play c]\<rparr>)
      else v)"
  by (auto simp: switchAnimation_def emit_def Let_def split: option.splits)

lemma switch_0_to_1:
  "switchAnimation 1 two_clip_viewer =
     two_clip_viewer\<lparr>activeAction := Some sprint,
        emitted := [FadeOut walk (3 / 10), Reset sprint, FadeIn sprint (3 / 10), Play sprint]\<rparr>"
  by (simp add: two_clip_viewer_eq switchAnimation_def emit_def Let_def)

text \<open>
  On the asset of two clips with clip 1 active, index 5 fades clip 1 out and starts
  clip 0; with clip 0 active it fades clip 0 out and restarts it.
\<close>

theorem out_of_range_counterexample:
  "switchAnimation 5 (switchAnimation 1 two_clip_viewer) \<noteq> switchAnimation 1 two_clip_viewer
   \<and> activeAction (switchAnimation 1 two_clip_viewer) = Some sprint
   \<and> activeAction (switchAnimation 5 (switchAnimation 1 two_clip_viewer)) = Some walk
   \<and> emitted (switchAnimation 5 ((switchAnimation 1 two_clip_viewer)\<lparr>emitted := []\<rparr>))
       = [FadeOut sprint (3 / 10), Reset walk, FadeIn walk (3 / 10), Play walk]
   \<and> emitted (switchAnimation 5 two_clip_viewer)
       = [FadeOut walk (3 / 10), Reset walk, FadeIn walk (3 / 10), Play walk]"
  by (simp add: two_clip_viewer_eq switchAnimation_def emit_def Let_def walk_def sprint_def)

subsection \<open>Loads in flight\<close>

lemmas sched_defs = run_def step_def effect_cleanup_def initial_app_def


lemma processResult_installs:
  assumes "installs pointSize ext result = Some (object, md)"
  shows "\<exists>v'. processResult pointSize ext result v = Inr v' \<and> model v' = Some object
            \<and> reported (emitted v') = Some md"
  using assms
  by (auto simp: installs_def processResult_def emit_def Let_def reported_append
      split: sum.splits prod.splits list.splits)

lemma finish_installs:
  assumes "installs pointSize ext result = Some (object, md)"
  shows "model (finish pointSize ext (Inr result) v) = Some object
         \<and> reported (emitted (finish pointSize ext (Inr result) v)) = Some md"
  using processResult_installs [OF assms, of v] by (auto simp: finish_def)

lemma two_pending_loads:
  "loads two_pending =
     [\<lparr>l_url = ''blob:a'', l_ext = ''obj'', l_pointSize = 1 / 20, l_phase = AwaitFetch\<rparr>,
      \<lparr>l_url = ''blob:b'', l_ext = ''pcd'', l_pointSize = 1 / 20, l_phase = Finished\<rparr>]"
  by (simp add: two_pending_def sched_defs load_defs string_defs example_world_def
        initial_viewer_def eval_defs asset_defs round_rat_numeral)

text \<open>
  C9 (as amended).  The component does not check that a load which finishes is still the
  current request.  Whenever the continuation of a started load runs and its parse and
  \<^verbatim>\<open>processResult\<close> succeed, the object of that load is installed and its metadata
  reported, whatever loads were started or finished after it was started: the state shows
  the load that finished last, not the one started last.
\<close>

theorem resumed_load_installs:
  assumes "k < length (loads s)"
    and "pending_result w (loads s ! k) = Some result"
    and "installs (l_pointSize (loads s ! k)) (l_ext (loads s ! k)) result = Some (object, md)"
  shows "model (viewer (step w (Resume k) s)) = Some object
         \<and> reported (emitted (viewer (step w (Resume k) s))) = Some md"
proof (cases "l_phase (loads s ! k)")
  case AwaitFetch
  with assms(2) obtain buffer where f: "fetch w (l_url (loads s ! k)) = Inr buffer"
    by (auto simp: pending_result_def split: sum.splits)
  from assms(2) AwaitFetch f
  have p: "l_ext (loads s ! k) \<noteq> ''glb''" "l_ext (loads s ! k) \<noteq> ''gltf''"
    by (auto simp: pending_result_def split: sum.splits if_splits)
  let ?v = "emit (ParserCall (l_ext (loads s ! k)))
              (emit (LoadingStatus (''Decoding '' @ toUpperCase (l_ext (loads s ! k)) @ '' payloads...''))
                 (viewer s))"
  from assms(2) AwaitFetch f p
  have "fst (loadModel_fetched w (l_pointSize (loads s ! k)) (l_url (loads s ! k))
               (l_ext (loads s ! k)) (viewer s))
          = finish (l_pointSize (loads s ! k)) (l_ext (loads s ! k)) (Inr result) ?v
        \<and> snd (loadModel_fetched w (l_pointSize (loads s ! k)) (l_url (loads s ! k))
               (l_ext (loads s ! k)) (viewer s)) = None"
    by (auto simp: pending_result_def loadModel_fetched_def Let_def split: sum.splits if_splits)
  with assms(1) AwaitFetch finish_installs [OF assms(3), of ?v] show ?thesis
    by (auto simp: step_def Let_def split: prod.splits option.splits)
next
  case (AwaitParse buffer)
  with assms(2)
  have "loadModel_parsed w (l_pointSize (loads s ! k)) (l_ext (loads s ! k)) buffer (viewer s)
          = finish (l_pointSize (loads s ! k)) (l_ext (loads s ! k)) (Inr result) (viewer s)"
    by (auto simp: pending_result_def loadModel_parsed_def split: sum.splits)
  with assms(1) AwaitParse finish_installs [OF assms(3), of "viewer s"] show ?thesis
    by (auto simp: step_def Let_def)
next
  case Finished
  with assms(2) show ?thesis by (simp add: pending_result_def)
qed

text \<open>
  An OBJ load is started, then a PCD load; the PCD load finishes first, the OBJ load
  after it.  The model and the metadata at the end are those of the OBJ load.
\<close>

theorem stale_load_counterexample:
  "model (viewer (run example_world
            [PropsChange (Some ''blob:a'') (Some ''obj'') (1 / 20),
             PropsChange (Some ''blob:b'') (Some ''pcd'') (1 / 20),
             Resume 1, Resume 0] initial_app))
     = model (load_effect example_world (1 / 20) (Some ''blob:a'') (Some ''obj'') initial_viewer)
   \<and> model (viewer (run example_world
            [PropsChange (Some ''blob:a'') (Some ''obj'') (1 / 20),
             PropsChange (Some ''blob:b'') (Some ''pcd'') (1 / 20),
             Resume 1, Resume 0] initial_app))
     \<noteq> model (load_effect example_world (1 / 20) (Some ''blob:b'') (Some ''pcd'') initial_viewer)
   \<and> reported (emitted (viewer (run example_world
            [PropsChange (Some ''blob:a'') (Some ''obj'') (1 / 20),
             PropsChange (Some ''blob:b'') (Some ''pcd'') (1 / 20),
             Resume 1, Resume 0] initial_app)))
     = reported (emitted (load_effect example_world (1 / 20) (Some ''blob:a'') (Some ''obj'')
                            initial_viewer))"
  by (simp add: sched_defs load_defs string_defs example_world_def initial_viewer_def eval_defs
        asset_defs round_rat_numeral)


theorem resumed_load_installs_witness:
  "\<exists>object md.
      0 < length (loads two_pending)
      \<and> l_url (last (loads two_pending)) = ''blob:b''
      \<and> pending_result example_world (loads two_pending ! 0) = Some (ObjectResult two_sharing)
      \<and> installs (l_pointSize (loads two_pending ! 0)) (l_ext (loads two_pending ! 0))
           (ObjectResult two_sharing) = Some (object, md)
      \<and> model (viewer (step example_world (Resume 0) two_pending)) = Some object
      \<and> reported (emitted (viewer (step example_world (Resume 0) two_pending))) = Some md"
proof -
  have a: "0 < length (loads two_pending)" and l: "l_url (last (loads two_pending)) = ''blob:b''"
    by (simp_all add: two_pending_loads)
  have b: "pending_result example_world (loads two_pending ! 0) = Some (ObjectResult two_sharing)"
    by (simp add: two_pending_loads pending_result_def example_world_def)
  obtain object md where
    c: "installs (l_pointSize (loads two_pending ! 0)) (l_ext (loads two_pending ! 0))
          (ObjectResult two_sharing) = Some (object, md)"
    by (cases "installs (l_pointSize (loads two_pending ! 0)) (l_ext (loads two_pending ! 0))
                 (ObjectResult two_sharing)")
       (auto simp: two_pending_loads installs_def normalize_def split: prod.splits)
  from resumed_load_installs [OF a b c] a l b c show ?thesis by blast
qed

subsection \<open>Camera framing\<close>

lemma arctan_less_self:
  assumes "0 < (y::real)"
  shows "arctan y < y"
proof -
  have "\<exists>z. 0 < z \<and> z < y \<and> arctan y - arctan 0 = (y - 0) * inverse (1 + z\<^sup>2)"
    using assms by (intro MVT2) (auto intro: DERIV_arctan)
  then obtain z where z: "0 < z" "arctan y = y * inverse (1 + z\<^sup>2)" by auto
  have "inverse (1 + z\<^sup>2) < 1"
    using z(1) by (simp add: inverse_less_1_iff power2_eq_square add_pos_pos)
  then show ?thesis using z(2) assms by simp
qed

lemma self_less_tan:
  assumes "0 < (x::real)" "x < pi / 2"
  shows "x < tan x"
proof -
  have "0 < tan x" using assms by (rule tan_gt_zero)
  then have "arctan (tan x) < tan x" by (rule arctan_less_self)
  moreover have "arctan (tan x) = x" using assms by (intro arctan_tan) auto
  ultimately show ?thesis by simp
qed

lemma pi_less_32: "pi < 16 / 5"
proof -
  have "arctan (1 / 5) < 1 / (5::real)" by (rule arctan_less_self) simp
  moreover have "0 < arctan (1 / 239 :: real)" by simp
  ultimately have "4 * arctan (1 / 5) - arctan (1 / 239 :: real) < 4 / 5" by linarith
  then show ?thesis using machin by linarith
qed

lemma tan_pi_8: "tan (pi / 8) = sqrt 2 - 1"
proof -
  let ?t = "tan (pi / 8)"
  have t0: "0 < ?t" by (rule tan_gt_zero) (use pi_gt_zero in auto)
  have c1: "cos (pi / 8) \<noteq> 0"
    using cos_gt_zero_pi [of "pi / 8"] pi_gt_zero by simp
  have c2: "cos (2 * (pi / 8)) \<noteq> 0"
    using cos_gt_zero_pi [of "2 * (pi / 8)"] pi_gt_zero by simp
  have "tan (2 * (pi / 8)) = 2 * ?t / (1 - ?t\<^sup>2)" using c1 c2 by (rule tan_double)
  moreover have "tan (2 * (pi / 8)) = 1" using tan_45 by simp
  ultimately have e: "2 * ?t / (1 - ?t\<^sup>2) = 1" by simp
  then have n: "1 - ?t\<^sup>2 \<noteq> 0" by auto
  from e n have "2 * ?t = 1 - ?t\<^sup>2" by (simp add: field_simps)
  then have "(?t + 1)\<^sup>2 = 2" by (simp add: power2_eq_square algebra_simps)
  then have "sqrt ((?t + 1)\<^sup>2) = sqrt 2" by simp
  then have "?t + 1 = sqrt 2" using t0 by simp
  then show ?thesis by simp
qed


lemma distance_box211:
  "distance box211 canvas_camera = (6 / 5) * (2 / (2 * arctan (pi / 8)))"
proof -
  have "pi * 45 / 360 = pi / 8" by simp
  then show ?thesis
    by (simp add: distance_def fitWidthDistance_def fitHeightDistance_def getSize_def isEmpty_def
          box211_def canvas_camera_def Let_def)
qed

text \<open>
  C4.  For the box of extents 2, 1, 1 and a field of view of 45 degrees the distance
  \<^verbatim>\<open>frameCamera\<close> computes is 1.2 times \<open>2 / (2 * arctan (pi / 8))\<close>: line 52 takes
  the arc tangent of the half angle where the fit of the height needs its tangent.  The
  distance exceeds the distance of the formula with the tangent by more than 1/10.
\<close>

theorem frameCamera_distance_atan:
  "distance box211 canvas_camera = (6 / 5) * (2 / (2 * arctan (pi / 8)))
   \<and> near (fst (frameCamera box211 canvas_camera None)) = distance box211 canvas_camera / 1000
   \<and> far (fst (frameCamera box211 canvas_camera None)) = distance box211 canvas_camera * 1000
   \<and> 1 / 10 < distance box211 canvas_camera
               - (6 / 5) * max (2 / (2 * tan (pi * 45 / 360))) (2 / (2 * tan (pi * 45 / 360)) / 1)"
proof -
  have a0: "0 < arctan (pi / 8)" using pi_gt_zero by simp
  have "arctan (pi / 8) < pi / 8" by (rule arctan_less_self) (use pi_gt_zero in simp)
  also have "pi / 8 < 2 / 5" using pi_less_32 by simp
  finally have a1: "arctan (pi / 8) < 2 / 5" .
  have "1 / (2 / 5) < 1 / arctan (pi / 8)"
    using a0 a1 by (intro divide_strict_left_mono) (simp_all add: mult_pos_pos)
  then have code: "5 / 2 < 1 / arctan (pi / 8)" by simp
  have s2: "sqrt 2 < 14143 / 10000"
    by (rule real_less_lsqrt) (simp_all add: power2_eq_square)
  have s1: "1 < sqrt 2" by simp
  have "(sqrt 2 - 1) * (sqrt 2 + 1) = 1" by (simp add: algebra_simps)
  then have "1 / (sqrt 2 - 1) = sqrt 2 + 1" using s1 by (simp add: field_simps)
  then have spec: "1 / tan (pi / 8) < 24143 / 10000" using s2 by (simp add: tan_pi_8)
  have e: "pi * 45 / 360 = pi / 8" by simp
  have d: "distance box211 canvas_camera = (6 / 5) * (1 / arctan (pi / 8))"
    by (simp add: distance_box211)
  have f: "(6 / 5) * max (2 / (2 * tan (pi * 45 / 360))) (2 / (2 * tan (pi * 45 / 360)) / 1)
             = (6 / 5) * (1 / tan (pi / 8))"
    unfolding e by simp
  have "1 / 10 < (6 / 5) * (1 / arctan (pi / 8)) - (6 / 5) * (1 / tan (pi / 8))"
    using code spec by linarith
  then have gap: "1 / 10 < distance box211 canvas_camera
      - (6 / 5) * max (2 / (2 * tan (pi * 45 / 360))) (2 / (2 * tan (pi * 45 / 360)) / 1)"
    unfolding d f .
  have n: "near (fst (frameCamera box211 canvas_camera None)) = distance box211 canvas_camera / 1000"
    and fa: "far (fst (frameCamera box211 canvas_camera None)) = distance box211 canvas_camera * 1000"
    by (simp_all add: frameCamera_def Let_def split: prod.splits)
  show ?thesis using distance_box211 n fa gap by (intro conjI)
qed

subsection \<open>Export options\<close>

text \<open>
  C10.  The options handed to the exporter, the store, the exported scene and the bytes
  of the download are the same whether \<^verbatim>\<open>ktx2\<close> is set or not; the flag reaches the
  file name only.  The options record has no field that would request texture
  compression.
\<close>

theorem exportModel_ktx2_only_names:
  "exportOptions anims (config\<lparr>ktx2 := True\<rparr>) = exportOptions anims (config\<lparr>ktx2 := False\<rparr>)
   \<and> map_option (\<lambda>(h', scene, opts, out). (h', scene, opts,
                      case out of Download name output \<Rightarrow> Some output | _ \<Rightarrow> None))
        (exportModel lib fuel m anims (config\<lparr>ktx2 := True\<rparr>) h)
     = map_option (\<lambda>(h', scene, opts, out). (h', scene, opts,
                      case out of Download name output \<Rightarrow> Some output | _ \<Rightarrow> None))
        (exportModel lib fuel m anims (config\<lparr>ktx2 := False\<rparr>) h)
   \<and> download_name (config\<lparr>ktx2 := True\<rparr>)
       = strip_ext (fileName config) @ (if draco config then ''_draco_ktx2'' else ''_ktx2'') @ ''.glb''
   \<and> download_name (config\<lparr>ktx2 := False\<rparr>)
       = strip_ext (fileName config) @ (if draco config then ''_draco'' else ''_optimized'') @ ''.glb''"
  by (auto simp: exportOptions_def exportModel_def download_name_def suffix_of_def Let_def
      split: option.splits sum.splits prod.splits)

subsection \<open>Cloning in the store\<close>

lemma length_add_child [simp]: "length (add_child h p c) = length h"
  by (simp add: add_child_def Let_def)




















lemma export_example:
  "exportModel example_three 2 (Some 0) [] robot_config live_store
     = Some (live_store @
               [\<lparr>obj = group_node, position = (0, 0, 0), children = [3], parent = None\<rparr>,
                \<lparr>obj = group_node, position = (1 / 2, - 1, 0), children = [4], parent = Some 2\<rparr>,
                \<lparr>obj = mesh_node 3 None (Single (parsed_material 7)), position = (0, 2, 0),
                  children = [], parent = Some 3\<rparr>],
             Some 2, Some (exportOptions [] robot_config),
             Download ''robot_draco.glb'' [103, 108, 84, 70])"
  by (simp add: exportModel_def live_store_def example_three_def robot_config_def numeral_2_eq_2
        add_child_def Let_def vec_sub_def group_node_def download_name_def suffix_of_def
        match_ext_def nth_append)

subsection \<open>Export leaves the displayed model alone\<close>




end
